theory Spec2Isabelle
  imports Complex_Main "HOL-Library.Multiset" "HOL-Library.Char_ord" "HOL-Library.List_Lexorder" "HOL-Library.Sublist"
begin

section \<open>Data model\<close>

text \<open>
  The manifest of a project is the JSON hit list of the catalog's \<open>/files\<close> endpoint.
  Every hit is a dictionary; the programs read it with \<open>file.get(key, default)\<close> for the
  optional keys and with \<open>file[key]\<close> for \<open>file_id\<close>, \<open>file_name\<close> and \<open>md5sum\<close>.
  A key that may be absent is an \<open>option\<close> field (\<open>None\<close>: the key is absent), and every
  present key carries a value of the type the catalog documents for it.  The key
  \<open>cases\<close> holds a list of dictionaries, each with an optional \<open>submitter_id\<close>.
\<close>

record case_entry =
  submitter_id :: "string option"

record file_record =
  file_id :: string
  file_name :: string
  md5sum :: string
  case_id :: "string option"
  file_size :: "nat option"
  data_format :: "string option"
  experimental_strategy :: "string option"
  cases :: "case_entry list option"

datatype py_error =
    IndexError
  | KeyError
  | ValueError
  | RequestException
  | OSError
  | TypeError
  | RetryError

text \<open>
  \<open>defaultdict(list)\<close>: a dictionary keeps its keys in the order of their first insertion,
  so a patient group is an association list with distinct keys.
\<close>

type_synonym patient_group = "(string \<times> file_record list) list"

section \<open>Grouping stage\<close>

text \<open>\<open>patient_slides[identifier].append(file)\<close> on the insertion-ordered dictionary.\<close>

fun append_slide :: "string \<Rightarrow> file_record \<Rightarrow> patient_group \<Rightarrow> patient_group" where
  "append_slide k f [] = [(k, [f])]"
| "append_slide k f ((k', slides) # rest) =
     (if k = k' then (k', slides @ [f]) # rest else (k', slides) # append_slide k f rest)"

text \<open>\<open>file.get("experimental_strategy", "")\<close>\<close>

definition strategy_of :: "file_record \<Rightarrow> string" where
  "strategy_of file = (case experimental_strategy file of None \<Rightarrow> [] | Some s \<Rightarrow> s)"

text \<open>
  \<open>file.get("cases", [{}])[0]\<close>: the default \<open>[{}]\<close> stands in for an absent key only;
  a present, empty list raises \<open>IndexError\<close> at \<open>[0]\<close>.
\<close>

definition first_case :: "file_record \<Rightarrow> py_error + case_entry" where
  "first_case file =
     (case cases file of
        None \<Rightarrow> Inr \<lparr>submitter_id = None\<rparr>
      | Some [] \<Rightarrow> Inl IndexError
      | Some (c # _) \<Rightarrow> Inr c)"

text \<open>\<open>.get("submitter_id", "Unknown")\<close>\<close>

definition submitter_of :: "case_entry \<Rightarrow> string" where
  "submitter_of c = (case submitter_id c of None \<Rightarrow> ''Unknown'' | Some s \<Rightarrow> s)"

text \<open>
  \<open>case_id or submitter_id\<close>: Python's \<open>or\<close> returns its left operand when it is truthy;
  \<open>None\<close> and the empty string are falsy.
\<close>

definition py_or :: "string option \<Rightarrow> string \<Rightarrow> string" where
  "py_or a b = (case a of None \<Rightarrow> b | Some s \<Rightarrow> if s = [] then b else s)"

text \<open>
  Lines 92 to 94 of \<open>group_by_patient\<close>: the submitter identifier is computed before
  the \<open>or\<close>, whether or not the case identifier is present.
\<close>

definition identifier_of :: "file_record \<Rightarrow> py_error + string" where
  "identifier_of file =
     (case first_case file of
        Inl e \<Rightarrow> Inl e
      | Inr c \<Rightarrow> Inr (py_or (case_id file) (submitter_of c)))"

text \<open>
  \<open>if patient_ids and identifier not in patient_ids: continue\<close>.  The argument is \<open>None\<close>
  or a list; \<open>None\<close> and the empty list are falsy.
\<close>

definition rejected_by_allow_list :: "string list option \<Rightarrow> string \<Rightarrow> bool" where
  "rejected_by_allow_list patient_ids identifier =
     (case patient_ids of
        None \<Rightarrow> False
      | Some l \<Rightarrow> l \<noteq> [] \<and> identifier \<notin> set l)"

text \<open>The two \<open>continue\<close> guards on the slide type.\<close>

definition skipped_by_type :: "string \<Rightarrow> file_record \<Rightarrow> bool" where
  "skipped_by_type download_type file =
     ((download_type = ''tissue'' \<and> strategy_of file \<noteq> ''Tissue Slide'') \<or>
      (download_type = ''diagnostic'' \<and> strategy_of file \<noteq> ''Diagnostic Slide''))"

text \<open>The \<open>for\<close> loop of \<open>group_by_patient\<close>, with the dictionary as accumulator.\<close>

fun group_loop ::
  "file_record list \<Rightarrow> string \<Rightarrow> string list option \<Rightarrow> patient_group \<Rightarrow> py_error + patient_group"
where
  "group_loop [] download_type patient_ids patient_slides = Inr patient_slides"
| "group_loop (file # files) download_type patient_ids patient_slides =
     (if skipped_by_type download_type file
      then group_loop files download_type patient_ids patient_slides
      else
        (case identifier_of file of
           Inl e \<Rightarrow> Inl e
         | Inr identifier \<Rightarrow>
             if rejected_by_allow_list patient_ids identifier
             then group_loop files download_type patient_ids patient_slides
             else group_loop files download_type patient_ids
                    (append_slide identifier file patient_slides)))"

text \<open>\<open>group_by_patient\<close> of \<open>download_tcga_slides_by_type_and_projects.py\<close>.\<close>

definition group_by_patient ::
  "file_record list \<Rightarrow> string \<Rightarrow> string list option \<Rightarrow> py_error + patient_group"
where
  "group_by_patient files download_type patient_ids =
     group_loop files download_type patient_ids []"

text \<open>
  \<open>group_by_patient\<close> of \<open>gdc-WSI-downloader.py\<close>: the same loop without the allow-list.
\<close>

fun group_loop_wsi ::
  "file_record list \<Rightarrow> string \<Rightarrow> patient_group \<Rightarrow> py_error + patient_group"
where
  "group_loop_wsi [] download_type patient_slides = Inr patient_slides"
| "group_loop_wsi (file # files) download_type patient_slides =
     (if skipped_by_type download_type file
      then group_loop_wsi files download_type patient_slides
      else
        (case identifier_of file of
           Inl e \<Rightarrow> Inl e
         | Inr identifier \<Rightarrow>
             group_loop_wsi files download_type
               (append_slide identifier file patient_slides)))"

definition group_by_patient_wsi :: "file_record list \<Rightarrow> string \<Rightarrow> py_error + patient_group" where
  "group_by_patient_wsi files download_type = group_loop_wsi files download_type []"

section \<open>Strings and paths\<close>

type_synonym path = string

text \<open>
  \<open>os.path.join(a, b)\<close> on POSIX: an absolute second component replaces the first, and
  no separator is added after an empty first component or one that ends in \<open>/\<close>.
  Paths are compared as strings; they are not normalised.
\<close>

definition path_join :: "path \<Rightarrow> path \<Rightarrow> path" where
  "path_join a b =
     (if b \<noteq> [] \<and> hd b = CHR ''/'' then b
      else if a = [] \<or> last a = CHR ''/'' then a @ b
      else a @ ''/'' @ b)"

definition GDC_API_ENDPOINT :: string where
  "GDC_API_ENDPOINT = ''https://api.gdc.cancer.gov''"

definition BASE_DIR :: path where
  "BASE_DIR = ''tcga_data''"

definition METADATA_DIR :: path where
  "METADATA_DIR = path_join BASE_DIR ''metadata''"

definition SLIDES_DIR :: path where
  "SLIDES_DIR = path_join BASE_DIR ''slides''"

text \<open>\<open>str.lower\<close>, \<open>str.strip\<close>, \<open>str.split(",")\<close> and \<open>str.endswith\<close>, on ASCII text.\<close>

definition lower_char :: "char \<Rightarrow> char" where
  "lower_char c =
     (if (65::nat) \<le> of_char c \<and> of_char c \<le> (90::nat)
      then char_of (of_char c + (32::nat)) else c)"

definition lower :: "string \<Rightarrow> string" where
  "lower s = map lower_char s"

definition is_space :: "char \<Rightarrow> bool" where
  "is_space c =
     (of_char c = (32::nat) \<or> ((9::nat) \<le> of_char c \<and> of_char c \<le> (13::nat)) \<or>
      ((28::nat) \<le> of_char c \<and> of_char c \<le> (31::nat)))"

definition strip :: "string \<Rightarrow> string" where
  "strip s = rev (dropWhile is_space (rev (dropWhile is_space s)))"

fun split_on :: "char \<Rightarrow> string \<Rightarrow> string list" where
  "split_on sep [] = [[]]"
| "split_on sep (c # cs) =
     (if c = sep then [] # split_on sep cs
      else (case split_on sep cs of
              [] \<Rightarrow> [[c]]
            | w # ws \<Rightarrow> (c # w) # ws))"

definition endswith :: "string \<Rightarrow> string \<Rightarrow> bool" where
  "endswith s ending = (length ending \<le> length s \<and> drop (length s - length ending) s = ending)"

text \<open>\<open>", ".join(xs)\<close>\<close>

fun join_comma :: "string list \<Rightarrow> string" where
  "join_comma [] = []"
| "join_comma [x] = x"
| "join_comma (x # y # ys) = x @ '', '' @ join_comma (y # ys)"

section \<open>The world outside the program\<close>

text \<open>
  A file holds raw bytes (a downloaded slide), the JSON document \<open>json.dump\<close> wrote for
  a patient, or the rows a \<open>csv.writer\<close> wrote; the structured documents are kept
  unserialised.
\<close>

datatype cell = Str string | Num nat | Fixed2 rat

datatype content =
    Bytes string
  | Json_doc "file_record list"
  | Csv_doc "cell list list"

datatype node = File content | Dir

text \<open>
  What the remote API answers to one request.  \<open>ConnectionFailure\<close>: \<open>requests.get\<close>
  raises; \<open>HttpError\<close>: \<open>raise_for_status\<close> raises; both exceptions are subclasses of
  \<open>requests.exceptions.RequestException\<close>.  \<open>NotJson\<close>: \<open>response.json()\<close> raises
  \<open>ValueError\<close>.  \<open>Json None\<close>: a document without \<open>data.hits\<close>.
\<close>

datatype 'a api_response =
    ConnectionFailure
  | HttpError
  | NotJson
  | Json "'a option"

text \<open>
  The answer of the data endpoint: the chunks \<open>iter_content\<close> yields, and whether the
  transfer breaks after them (\<open>iter_content\<close> then raises a \<open>RequestException\<close>).
\<close>

datatype data_response =
    DataConnectionFailure
  | DataHttpError
  | Stream "string list" bool

datatype level = INFO | WARNING | ERROR

datatype message =
    Skipping string string string
  | Checksum_mismatch string string string
  | Downloading string string string
  | Downloaded string string string
  | Retrying nat
  | Saved_metadata string string nat
  | Fetching_projects
  | Found_projects "string list"
  | Failed_to_fetch_projects
  | Fetching_manifest string
  | Loaded_patient_ids nat
  | No_patient_ids
  | Processing string
  | No_matching_slides string
  | Failed_to_download string string string
  | Failed_to_process string
  | Generated_project_summary string
  | Generated_all_projects_summary

text \<open>
  The state the program works on: the file system, the answers the remote API will give
  (one queue for each endpoint, consumed in the order of the requests; an exhausted queue
  answers with a connection failure), the URLs requested so far, the waits of the retry
  policy, and the log.
\<close>

record world =
  fs :: "path \<rightharpoonup> node"
  projects_api :: "string list api_response list"
  files_api :: "file_record list api_response list"
  data_api :: "data_response list"
  requests :: "string list"
  sleeps :: "nat list"
  logs :: "(level \<times> message) list"

text \<open>A \<open>pandas\<close> data frame read from a CSV file: its columns, \<open>None\<close> for a missing value.\<close>

type_synonym table = "(string \<times> string option list) list"

text \<open>
  What the program takes from its libraries and its platform: the MD5 digest, whether
  the operating system refuses to create or open for writing a path (a missing parent
  directory, permissions, a full disk), the order in which a \<open>set\<close> of strings built from
  a sequence of insertions is iterated (CPython derives it from string hashes that are
  salted anew in every process), and \<open>pandas.read_csv\<close>.
\<close>

record env =
  md5 :: "content \<Rightarrow> string"
  os_fault :: "path \<Rightarrow> bool"
  set_iter :: "string list \<Rightarrow> string list"
  read_csv :: "path \<Rightarrow> py_error + table"

definition log_event :: "level \<Rightarrow> message \<Rightarrow> world \<Rightarrow> world" where
  "log_event lvl m w = w\<lparr>logs := logs w @ [(lvl, m)]\<rparr>"

section \<open>File system operations\<close>

text \<open>\<open>Path(p).mkdir(exist_ok=True)\<close>\<close>

definition mkdir_exist_ok :: "env \<Rightarrow> path \<Rightarrow> (path \<rightharpoonup> node) \<Rightarrow> py_error + (path \<rightharpoonup> node)" where
  "mkdir_exist_ok e p m =
     (case m p of
        Some Dir \<Rightarrow> Inr m
      | Some (File c) \<Rightarrow> Inl OSError
      | None \<Rightarrow> if os_fault e p then Inl OSError else Inr (m(p \<mapsto> Dir)))"

text \<open>The proper ancestors of a path, outermost first: its prefixes before each \<open>/\<close>.\<close>

fun ancestors :: "path \<Rightarrow> path \<Rightarrow> path list" where
  "ancestors done [] = []"
| "ancestors done (c # cs) =
     (if c = CHR ''/'' \<and> done \<noteq> [] then [done] else []) @ ancestors (done @ [c]) cs"

fun mkdir_each :: "env \<Rightarrow> path list \<Rightarrow> (path \<rightharpoonup> node) \<Rightarrow> py_error + (path \<rightharpoonup> node)" where
  "mkdir_each e [] m = Inr m"
| "mkdir_each e (p # ps) m =
     (case mkdir_exist_ok e p m of
        Inl err \<Rightarrow> Inl err
      | Inr m' \<Rightarrow> mkdir_each e ps m')"

text \<open>\<open>Path(p).mkdir(parents=True, exist_ok=True)\<close>\<close>

definition mkdir_parents :: "env \<Rightarrow> path \<Rightarrow> (path \<rightharpoonup> node) \<Rightarrow> py_error + (path \<rightharpoonup> node)" where
  "mkdir_parents e p m = mkdir_each e (ancestors [] p @ [p]) m"

text \<open>\<open>open(p, "w")\<close> or \<open>open(p, "wb")\<close>, the writes and the close.\<close>

definition write_file :: "env \<Rightarrow> path \<Rightarrow> content \<Rightarrow> (path \<rightharpoonup> node) \<Rightarrow> py_error + (path \<rightharpoonup> node)" where
  "write_file e p c m =
     (if m p = Some Dir \<or> os_fault e p then Inl OSError else Inr (m(p \<mapsto> File c)))"

section \<open>Download engine\<close>

text \<open>\<open>requests.get(url, stream=True, timeout=30)\<close> on the data endpoint.\<close>

definition get_data :: "string \<Rightarrow> world \<Rightarrow> data_response \<times> world" where
  "get_data url w =
     (case data_api w of
        [] \<Rightarrow> (DataConnectionFailure, w\<lparr>requests := requests w @ [url]\<rparr>)
      | r # rs \<Rightarrow> (r, w\<lparr>data_api := rs, requests := requests w @ [url]\<rparr>))"

text \<open>
  Lines 129 to 137 of \<open>download_file\<close>: the request, \<open>raise_for_status\<close>, then
  \<open>open(output_path, "wb")\<close>, which truncates the file, and the chunks written one by one.
\<close>

definition fetch_file ::
  "env \<Rightarrow> string \<Rightarrow> string \<Rightarrow> string \<Rightarrow> string \<Rightarrow> path \<Rightarrow> world \<Rightarrow> (py_error + unit) \<times> world"
where
  "fetch_file e project_id file_id' file_name' identifier output_path w =
     (case get_data (GDC_API_ENDPOINT @ ''/data/'' @ file_id')
             (log_event INFO (Downloading file_name' project_id identifier) w) of
        (DataConnectionFailure, w2) \<Rightarrow> (Inl RequestException, w2)
      | (DataHttpError, w2) \<Rightarrow> (Inl RequestException, w2)
      | (Stream chunks broken, w2) \<Rightarrow>
          (case write_file e output_path (Bytes (concat chunks)) (fs w2) of
             Inl err \<Rightarrow> (Inl err, w2)
           | Inr m \<Rightarrow>
               if broken then (Inl RequestException, w2\<lparr>fs := m\<rparr>)
               else (Inr (),
                     log_event INFO (Downloaded file_name' project_id identifier)
                       (w2\<lparr>fs := m\<rparr>))))"

text \<open>
  The body of \<open>download_file\<close> in \<open>download_tcga_slides_by_type_and_projects.py\<close>, one
  attempt.  \<open>os.path.exists\<close> is true of a directory as well, and \<open>open(path, "rb")\<close> of a
  directory raises.
\<close>

definition download_file_body ::
  "env \<Rightarrow> string \<Rightarrow> string \<Rightarrow> string \<Rightarrow> string \<Rightarrow> string \<Rightarrow> path \<Rightarrow> world
     \<Rightarrow> (py_error + unit) \<times> world"
where
  "download_file_body e project_id file_id' file_name' identifier md5sum' project_slides_dir w =
     (case mkdir_exist_ok e (path_join project_slides_dir identifier) (fs w) of
        Inl err \<Rightarrow> (Inl err, w)
      | Inr m \<Rightarrow>
          (case m (path_join (path_join project_slides_dir identifier) file_name') of
             None \<Rightarrow>
               fetch_file e project_id file_id' file_name' identifier
                 (path_join (path_join project_slides_dir identifier) file_name') (w\<lparr>fs := m\<rparr>)
           | Some Dir \<Rightarrow> (Inl OSError, w\<lparr>fs := m\<rparr>)
           | Some (File c) \<Rightarrow>
               if md5 e c = md5sum'
               then (Inr (), log_event INFO (Skipping file_name' project_id identifier) (w\<lparr>fs := m\<rparr>))
               else
                 fetch_file e project_id file_id' file_name' identifier
                   (path_join (path_join project_slides_dir identifier) file_name')
                   (log_event WARNING (Checksum_mismatch file_name' project_id identifier)
                      (w\<lparr>fs := m\<rparr>))))"

text \<open>
  \<open>tenacity.wait_exponential(multiplier, min, max)\<close>, called with the number of the attempt
  that failed: \<open>max(max(0, min), min(multiplier * 2 ** (attempt_number - 1), max))\<close>.
\<close>

definition wait_exponential :: "nat \<Rightarrow> nat \<Rightarrow> nat \<Rightarrow> nat \<Rightarrow> nat" where
  "wait_exponential multiplier min' max' attempt_number =
     max (max 0 min') (min (multiplier * 2 ^ (attempt_number - 1)) max')"

definition sleep :: "nat \<Rightarrow> world \<Rightarrow> world" where
  "sleep t w = w\<lparr>sleeps := sleeps w @ [t]\<rparr>"

text \<open>
  The \<open>@retry\<close> decorator of \<open>tenacity\<close> with \<open>stop_after_attempt(stop)\<close>, a wait strategy,
  \<open>retry_if_exception_type((RequestException,))\<close> and the \<open>before_sleep\<close> hook of line 111.
  An exception of another type is raised again at once; after the last attempt
  \<open>tenacity\<close> raises its own \<open>RetryError\<close>.  The result carries the number of the last
  attempt.
\<close>

function retry_call ::
  "nat \<Rightarrow> (nat \<Rightarrow> nat) \<Rightarrow> (world \<Rightarrow> (py_error + unit) \<times> world) \<Rightarrow> nat \<Rightarrow> world
     \<Rightarrow> ((py_error + unit) \<times> nat) \<times> world"
where
  "retry_call stop wait fn attempt_number w =
     (case fn w of
        (Inr v, w1) \<Rightarrow> ((Inr v, attempt_number), w1)
      | (Inl err, w1) \<Rightarrow>
          if err \<noteq> RequestException then ((Inl err, attempt_number), w1)
          else if stop \<le> attempt_number then ((Inl RetryError, attempt_number), w1)
          else retry_call stop wait fn (Suc attempt_number)
                 (sleep (wait attempt_number)
                    (log_event WARNING (Retrying attempt_number) w1)))"
  by pat_completeness auto
termination
  by (relation "measure (\<lambda>(stop, wait, fn, attempt_number, w). stop - attempt_number)") auto

declare retry_call.simps [simp del]

text \<open>The decorated \<open>download_file\<close> of \<open>download_tcga_slides_by_type_and_projects.py\<close>.\<close>

definition download_file ::
  "env \<Rightarrow> string \<Rightarrow> string \<Rightarrow> string \<Rightarrow> string \<Rightarrow> string \<Rightarrow> path \<Rightarrow> world
     \<Rightarrow> ((py_error + unit) \<times> nat) \<times> world"
where
  "download_file e project_id file_id' file_name' identifier md5sum' project_slides_dir w =
     retry_call 3 (wait_exponential 1 4 10)
       (download_file_body e project_id file_id' file_name' identifier md5sum' project_slides_dir)
       1 w"

text \<open>
  \<open>download_file\<close> of \<open>gdc-WSI-downloader.py\<close>: no retry, no streaming (\<open>requests.get(url)\<close>
  reads the whole body, so a broken transfer raises before the file is opened), and
  \<open>print\<close> in place of the logger.
\<close>

definition fetch_file_wsi ::
  "env \<Rightarrow> string \<Rightarrow> string \<Rightarrow> string \<Rightarrow> string \<Rightarrow> path \<Rightarrow> world \<Rightarrow> (py_error + unit) \<times> world"
where
  "fetch_file_wsi e project_id file_id' file_name' identifier output_path w =
     (case get_data (GDC_API_ENDPOINT @ ''/data/'' @ file_id') w of
        (DataConnectionFailure, w2) \<Rightarrow> (Inl RequestException, w2)
      | (DataHttpError, w2) \<Rightarrow> (Inl RequestException, w2)
      | (Stream chunks broken, w2) \<Rightarrow>
          if broken then (Inl RequestException, w2)
          else
            (case write_file e output_path (Bytes (concat chunks)) (fs w2) of
               Inl err \<Rightarrow> (Inl err, w2)
             | Inr m \<Rightarrow>
                 (Inr (),
                  log_event INFO (Downloaded file_name' project_id identifier)
                    (w2\<lparr>fs := m\<rparr>))))"

definition download_file_wsi ::
  "env \<Rightarrow> string \<Rightarrow> string \<Rightarrow> string \<Rightarrow> string \<Rightarrow> string \<Rightarrow> path \<Rightarrow> world
     \<Rightarrow> (py_error + unit) \<times> world"
where
  "download_file_wsi e project_id file_id' file_name' identifier md5sum' project_slides_dir w =
     (case mkdir_exist_ok e (path_join project_slides_dir identifier) (fs w) of
        Inl err \<Rightarrow> (Inl err, w)
      | Inr m \<Rightarrow>
          (case m (path_join (path_join project_slides_dir identifier) file_name') of
             None \<Rightarrow>
               fetch_file_wsi e project_id file_id' file_name' identifier
                 (path_join (path_join project_slides_dir identifier) file_name') (w\<lparr>fs := m\<rparr>)
           | Some Dir \<Rightarrow> (Inl OSError, w\<lparr>fs := m\<rparr>)
           | Some (File c) \<Rightarrow>
               if md5 e c = md5sum'
               then (Inr (), log_event INFO (Skipping file_name' project_id identifier) (w\<lparr>fs := m\<rparr>))
               else
                 fetch_file_wsi e project_id file_id' file_name' identifier
                   (path_join (path_join project_slides_dir identifier) file_name')
                   (log_event INFO (Checksum_mismatch file_name' project_id identifier)
                      (w\<lparr>fs := m\<rparr>))))"

section \<open>Summary reporter\<close>

text \<open>
  The dictionary \<open>generate_project_summary_csv\<close> returns.  \<open>total_size_mb\<close> is the float
  \<open>total_size_bytes / (1024 * 1024)\<close>; a division by a power of two is exact for every
  size below \<open>2 ** 53\<close> bytes, so the quotient is kept as a rational number.
  \<open>Fixed2 x\<close> in a row is \<open>f"{x:.2f}"\<close>.
\<close>

record project_summary =
  project :: string
  total_patients :: nat
  total_slides :: nat
  tissue_slides :: nat
  diagnostic_slides :: nat
  total_size_mb :: rat
  file_formats :: string

text \<open>\<open>for slides in patient_slides.values() for file in slides\<close>\<close>

definition all_files :: "patient_group \<Rightarrow> file_record list" where
  "all_files patient_slides = concat (map snd patient_slides)"

text \<open>\<open>file.get("file_size", 0)\<close> and \<open>file.get("data_format", "Unknown")\<close>\<close>

definition size_of :: "file_record \<Rightarrow> nat" where
  "size_of file = (case file_size file of None \<Rightarrow> 0 | Some n \<Rightarrow> n)"

definition format_of :: "file_record \<Rightarrow> string" where
  "format_of file = (case data_format file of None \<Rightarrow> ''Unknown'' | Some s \<Rightarrow> s)"

definition megabytes :: "nat \<Rightarrow> rat" where
  "megabytes n = of_nat n / of_nat (1024 * 1024)"

text \<open>\<open>sum(1 for file in slides if file.get("experimental_strategy") == strategy)\<close>\<close>

definition count_strategy :: "string \<Rightarrow> file_record list \<Rightarrow> nat" where
  "count_strategy strategy slides =
     length (filter (\<lambda>file. experimental_strategy file = Some strategy) slides)"

definition summary_header :: "cell list" where
  "summary_header =
     [Str ''Project'', Str ''Total Patients'', Str ''Total Slides'', Str ''Tissue Slides'',
      Str ''Diagnostic Slides'', Str ''Total Size (MB)'', Str ''File Formats'']"

definition patient_header :: "cell list" where
  "patient_header =
     [Str ''Patient ID'', Str ''Number of Slides'', Str ''Tissue Slides'',
      Str ''Diagnostic Slides'', Str ''Size (MB)'']"

definition summary_row :: "project_summary \<Rightarrow> cell list" where
  "summary_row summary =
     [Str (project summary), Num (total_patients summary), Num (total_slides summary),
      Num (tissue_slides summary), Num (diagnostic_slides summary),
      Fixed2 (total_size_mb summary), Str (file_formats summary)]"

definition patient_row :: "string \<times> file_record list \<Rightarrow> cell list" where
  "patient_row item =
     [Str (fst item), Num (length (snd item)),
      Num (count_strategy ''Tissue Slide'' (snd item)),
      Num (count_strategy ''Diagnostic Slide'' (snd item)),
      Fixed2 (megabytes (sum_list (map size_of (snd item))))]"

text \<open>
  The statistics of lines 141 to 146.  \<open>formats\<close> is a \<open>set\<close> of strings, joined in its
  iteration order.
\<close>

definition summarize :: "env \<Rightarrow> string \<Rightarrow> patient_group \<Rightarrow> project_summary" where
  "summarize e project_id patient_slides =
     \<lparr>project = project_id,
      total_patients = length patient_slides,
      total_slides = sum_list (map (\<lambda>slides. length slides) (map snd patient_slides)),
      tissue_slides = count_strategy ''Tissue Slide'' (all_files patient_slides),
      diagnostic_slides = count_strategy ''Diagnostic Slide'' (all_files patient_slides),
      total_size_mb = megabytes (sum_list (map size_of (all_files patient_slides))),
      file_formats = join_comma (set_iter e (map format_of (all_files patient_slides)))\<rparr>"

text \<open>The rows written by lines 150 to 158; \<open>sorted(patient_slides.items())\<close> sorts by key.\<close>

definition project_summary_rows :: "env \<Rightarrow> string \<Rightarrow> patient_group \<Rightarrow> cell list list" where
  "project_summary_rows e project_id patient_slides =
     [summary_header, summary_row (summarize e project_id patient_slides), [], patient_header]
     @ map patient_row (sort_key fst patient_slides)"

definition generate_project_summary_csv ::
  "env \<Rightarrow> string \<Rightarrow> patient_group \<Rightarrow> world \<Rightarrow> (py_error + project_summary) \<times> world"
where
  "generate_project_summary_csv e project_id patient_slides w =
     (case write_file e (path_join BASE_DIR (project_id @ ''_summary.csv''))
             (Csv_doc (project_summary_rows e project_id patient_slides)) (fs w) of
        Inl err \<Rightarrow> (Inl err, w)
      | Inr m \<Rightarrow>
          (Inr (summarize e project_id patient_slides),
           log_event INFO (Generated_project_summary project_id) (w\<lparr>fs := m\<rparr>)))"

definition all_projects_rows :: "project_summary list \<Rightarrow> cell list list" where
  "all_projects_rows project_summaries = summary_header # map summary_row project_summaries"

definition generate_all_projects_summary_csv ::
  "env \<Rightarrow> project_summary list \<Rightarrow> world \<Rightarrow> (py_error + unit) \<times> world"
where
  "generate_all_projects_summary_csv e project_summaries w =
     (case write_file e (path_join BASE_DIR ''all_tcga_projects_summary.csv'')
             (Csv_doc (all_projects_rows project_summaries)) (fs w) of
        Inl err \<Rightarrow> (Inl err, w)
      | Inr m \<Rightarrow> (Inr (), log_event INFO Generated_all_projects_summary (w\<lparr>fs := m\<rparr>)))"

section \<open>Remote catalog client\<close>

definition get_projects :: "string \<Rightarrow> world \<Rightarrow> string list api_response \<times> world" where
  "get_projects url w =
     (case projects_api w of
        [] \<Rightarrow> (ConnectionFailure, w\<lparr>requests := requests w @ [url]\<rparr>)
      | r # rs \<Rightarrow> (r, w\<lparr>projects_api := rs, requests := requests w @ [url]\<rparr>))"

definition get_files :: "string \<Rightarrow> world \<Rightarrow> file_record list api_response \<times> world" where
  "get_files url w =
     (case files_api w of
        [] \<Rightarrow> (ConnectionFailure, w\<lparr>requests := requests w @ [url]\<rparr>)
      | r # rs \<Rightarrow> (r, w\<lparr>files_api := rs, requests := requests w @ [url]\<rparr>))"

text \<open>\<open>get_all_projects\<close>: every exception is logged and raised again.\<close>

definition get_all_projects :: "world \<Rightarrow> (py_error + string list) \<times> world" where
  "get_all_projects w =
     (case get_projects (GDC_API_ENDPOINT @ ''/projects'') (log_event INFO Fetching_projects w) of
        (ConnectionFailure, w2) \<Rightarrow>
          (Inl RequestException, log_event ERROR Failed_to_fetch_projects w2)
      | (HttpError, w2) \<Rightarrow> (Inl RequestException, log_event ERROR Failed_to_fetch_projects w2)
      | (NotJson, w2) \<Rightarrow> (Inl ValueError, log_event ERROR Failed_to_fetch_projects w2)
      | (Json None, w2) \<Rightarrow> (Inl KeyError, log_event ERROR Failed_to_fetch_projects w2)
      | (Json (Some projects), w2) \<Rightarrow> (Inr projects, log_event INFO (Found_projects projects) w2))"

text \<open>\<open>get_manifest\<close> returns the JSON document; the caller reads \<open>["data"]["hits"]\<close>.\<close>

definition get_manifest :: "string \<Rightarrow> world \<Rightarrow> (py_error + file_record list option) \<times> world" where
  "get_manifest project_id w =
     (case get_files (GDC_API_ENDPOINT @ ''/files'')
             (log_event INFO (Fetching_manifest project_id) w) of
        (ConnectionFailure, w2) \<Rightarrow> (Inl RequestException, w2)
      | (HttpError, w2) \<Rightarrow> (Inl RequestException, w2)
      | (NotJson, w2) \<Rightarrow> (Inl ValueError, w2)
      | (Json manifest, w2) \<Rightarrow> (Inr manifest, w2))"

section \<open>Metadata persister\<close>

definition create_directories ::
  "env \<Rightarrow> string \<Rightarrow> string \<Rightarrow> world \<Rightarrow> (py_error + path \<times> path option) \<times> world"
where
  "create_directories e project_id download_type w =
     (case mkdir_parents e (path_join METADATA_DIR project_id) (fs w) of
        Inl err \<Rightarrow> (Inl err, w)
      | Inr m \<Rightarrow>
          if download_type \<noteq> ''none''
          then
            (case mkdir_parents e (path_join SLIDES_DIR project_id) m of
               Inl err \<Rightarrow> (Inl err, w\<lparr>fs := m\<rparr>)
             | Inr m' \<Rightarrow>
                 (Inr (path_join METADATA_DIR project_id, Some (path_join SLIDES_DIR project_id)),
                  w\<lparr>fs := m'\<rparr>))
          else (Inr (path_join METADATA_DIR project_id, None), w\<lparr>fs := m\<rparr>))"

definition save_metadata ::
  "env \<Rightarrow> string \<Rightarrow> string \<Rightarrow> file_record list \<Rightarrow> path \<Rightarrow> world \<Rightarrow> (py_error + unit) \<times> world"
where
  "save_metadata e project_id identifier slides project_metadata_dir w =
     (case write_file e (path_join project_metadata_dir (identifier @ ''.json''))
             (Json_doc slides) (fs w) of
        Inl err \<Rightarrow> (Inl err, w)
      | Inr m \<Rightarrow>
          (Inr (),
           log_event INFO (Saved_metadata project_id identifier (length slides)) (w\<lparr>fs := m\<rparr>)))"

section \<open>Orchestrator\<close>

text \<open>
  Lines 245 to 256: the inner loop over the slides of one patient.  Every exception of
  \<open>download_file\<close> is caught and logged.  \<open>project_slides_dir\<close> is \<open>None\<close> when
  \<open>create_directories\<close> made no slide directory; \<open>os.path.join\<close> would raise \<open>TypeError\<close>.
\<close>

fun download_slides ::
  "env \<Rightarrow> string \<Rightarrow> string \<Rightarrow> string \<Rightarrow> path option \<Rightarrow> file_record list \<Rightarrow> world \<Rightarrow> world"
where
  "download_slides e download_type project_id identifier project_slides_dir [] w = w"
| "download_slides e download_type project_id identifier project_slides_dir (file # slides) w =
     (if (download_type = ''tissue'' \<and> experimental_strategy file \<noteq> Some ''Tissue Slide'') \<or>
         (download_type = ''diagnostic'' \<and> experimental_strategy file \<noteq> Some ''Diagnostic Slide'')
      then download_slides e download_type project_id identifier project_slides_dir slides w
      else
        (case (case project_slides_dir of
                 None \<Rightarrow> (Inl TypeError, w)
               | Some d \<Rightarrow>
                   (case download_file e project_id (file_id file) (file_name file) identifier
                           (md5sum file) d w of
                      ((r, n), w1) \<Rightarrow> (r, w1))) of
           (Inl err, w1) \<Rightarrow>
             download_slides e download_type project_id identifier project_slides_dir slides
               (log_event ERROR (Failed_to_download (file_name file) project_id identifier) w1)
         | (Inr v, w1) \<Rightarrow>
             download_slides e download_type project_id identifier project_slides_dir slides w1))"

text \<open>Lines 242 to 256: the loop over the patients of one project.\<close>

fun patients_loop ::
  "env \<Rightarrow> string \<Rightarrow> string \<Rightarrow> path \<Rightarrow> path option \<Rightarrow> patient_group \<Rightarrow> world
     \<Rightarrow> (py_error + unit) \<times> world"
where
  "patients_loop e download_type project_id project_metadata_dir project_slides_dir [] w =
     (Inr (), w)"
| "patients_loop e download_type project_id project_metadata_dir project_slides_dir
     ((identifier, slides) # rest) w =
     (case save_metadata e project_id identifier slides project_metadata_dir w of
        (Inl err, w1) \<Rightarrow> (Inl err, w1)
      | (Inr v, w1) \<Rightarrow>
          patients_loop e download_type project_id project_metadata_dir project_slides_dir rest
            (if download_type \<noteq> ''none''
             then download_slides e download_type project_id identifier project_slides_dir slides w1
             else w1))"

text \<open>Lines 235 to 259: the body of the \<open>try\<close> statement for one project.\<close>

definition process_project ::
  "env \<Rightarrow> string \<Rightarrow> string list option \<Rightarrow> string \<Rightarrow> path \<Rightarrow> path option \<Rightarrow> world
     \<Rightarrow> (py_error + project_summary) \<times> world"
where
  "process_project e download_type patient_id_list project_id project_metadata_dir
     project_slides_dir w =
     (case get_manifest project_id w of
        (Inl err, w1) \<Rightarrow> (Inl err, w1)
      | (Inr None, w1) \<Rightarrow> (Inl KeyError, w1)
      | (Inr (Some files), w1) \<Rightarrow>
          (case group_by_patient files
                  (if download_type \<noteq> ''none'' then download_type else ''both'')
                  patient_id_list of
             Inl err \<Rightarrow> (Inl err, w1)
           | Inr patient_slides \<Rightarrow>
               (case patients_loop e download_type project_id project_metadata_dir
                       project_slides_dir patient_slides
                       (if patient_slides = []
                        then log_event WARNING (No_matching_slides project_id) w1
                        else w1) of
                  (Inl err, w3) \<Rightarrow> (Inl err, w3)
                | (Inr v, w3) \<Rightarrow> generate_project_summary_csv e project_id patient_slides w3)))"

text \<open>
  Lines 231 to 263: the loop over the projects.  \<open>create_directories\<close> is called before the
  \<open>try\<close> statement, so its exceptions leave the loop; those of the \<open>try\<close> body are logged
  and the loop goes on.
\<close>

fun projects_loop ::
  "env \<Rightarrow> string \<Rightarrow> string list option \<Rightarrow> string list \<Rightarrow> project_summary list \<Rightarrow> world
     \<Rightarrow> (py_error + project_summary list) \<times> world"
where
  "projects_loop e download_type patient_id_list [] project_summaries w =
     (Inr project_summaries, w)"
| "projects_loop e download_type patient_id_list (project_id # rest) project_summaries w =
     (case create_directories e project_id download_type
             (log_event INFO (Processing project_id) w) of
        (Inl err, w1) \<Rightarrow> (Inl err, w1)
      | (Inr (project_metadata_dir, project_slides_dir), w1) \<Rightarrow>
          (case process_project e download_type patient_id_list project_id project_metadata_dir
                  project_slides_dir w1 of
             (Inl err, w2) \<Rightarrow>
               projects_loop e download_type patient_id_list rest project_summaries
                 (log_event ERROR (Failed_to_process project_id) w2)
           | (Inr project_summary, w2) \<Rightarrow>
               projects_loop e download_type patient_id_list rest
                 (project_summaries @ [project_summary]) w2))"

text \<open>
  Lines 213 to 228.  A value is truthy unless it is \<open>None\<close> or empty.  Inside the \<open>try\<close>,
  every exception, the \<open>ValueError\<close> for the missing column included, is raised again as
  a \<open>ValueError\<close>.  \<open>dropna\<close> removes the missing values.
\<close>

definition load_patient_ids ::
  "env \<Rightarrow> string option \<Rightarrow> world \<Rightarrow> (py_error + string list option) \<times> world"
where
  "load_patient_ids e patient_ids w =
     (case patient_ids of
        None \<Rightarrow> (Inr None, log_event INFO No_patient_ids w)
      | Some s \<Rightarrow>
          if s = [] then (Inr None, log_event INFO No_patient_ids w)
          else if endswith s ''.csv''
          then
            (case read_csv e s of
               Inl err \<Rightarrow> (Inl ValueError, w)
             | Inr df \<Rightarrow>
                 (case map_of df ''Patient ID'' of
                    None \<Rightarrow> (Inl ValueError, w)
                  | Some column \<Rightarrow>
                      (Inr (Some (map strip (List.map_filter (\<lambda>x. x) column))),
                       log_event INFO
                         (Loaded_patient_ids (length (List.map_filter (\<lambda>x. x) column))) w)))
          else
            (Inr (Some (map strip (split_on CHR '','' s))),
             log_event INFO (Loaded_patient_ids (length (split_on CHR '','' s))) w))"

text \<open>Lines 204 to 210: the selected projects.\<close>

definition select_projects :: "string \<Rightarrow> string list \<Rightarrow> py_error + string list" where
  "select_projects projects all_projects =
     (if lower projects = ''all'' then Inr all_projects
      else if filter (\<lambda>p. p \<notin> set all_projects) (map strip (split_on CHR '','' projects)) \<noteq> []
      then Inl ValueError
      else Inr (map strip (split_on CHR '','' projects)))"

text \<open>\<open>download_tcga_slides\<close> of \<open>download_tcga_slides_by_type_and_projects.py\<close>.\<close>

definition download_tcga_slides ::
  "env \<Rightarrow> string \<Rightarrow> string \<Rightarrow> string option \<Rightarrow> world \<Rightarrow> (py_error + unit) \<times> world"
where
  "download_tcga_slides e download_type projects patient_ids w =
     (if download_type \<notin> set [''tissue'', ''diagnostic'', ''both'', ''none'']
      then (Inl ValueError, w)
      else
        (case get_all_projects w of
           (Inl err, w1) \<Rightarrow> (Inl err, w1)
         | (Inr all_projects, w1) \<Rightarrow>
             (case select_projects projects all_projects of
                Inl err \<Rightarrow> (Inl err, w1)
              | Inr project_list \<Rightarrow>
                  (case load_patient_ids e patient_ids w1 of
                     (Inl err, w2) \<Rightarrow> (Inl err, w2)
                   | (Inr patient_id_list, w2) \<Rightarrow>
                       (case projects_loop e download_type patient_id_list project_list [] w2 of
                          (Inl err, w3) \<Rightarrow> (Inl err, w3)
                        | (Inr project_summaries, w3) \<Rightarrow>
                            generate_all_projects_summary_csv e project_summaries w3)))))"

section \<open>Notions used in the statements\<close>

text \<open>
  A record is admitted by a grouping pass when neither slide-type guard skips it, its
  patient identifier is resolved, and the allow-list does not reject that identifier.
\<close>

definition admitted :: "string \<Rightarrow> string list option \<Rightarrow> file_record \<Rightarrow> bool" where
  "admitted download_type patient_ids file =
     (\<not> skipped_by_type download_type file \<and>
      (case identifier_of file of
         Inl e \<Rightarrow> False
       | Inr identifier \<Rightarrow> \<not> rejected_by_allow_list patient_ids identifier))"

definition well_keyed :: "patient_group \<Rightarrow> bool" where
  "well_keyed g =
     (\<forall>(k, slides) \<in> set g. slides \<noteq> [] \<and> (\<forall>f \<in> set slides. identifier_of f = Inr k))"

text \<open>
  An answer of the data endpoint that makes an attempt of \<open>download_file\<close> end in a
  \<open>RequestException\<close> and leaves the target, if it wrote one, with another checksum than
  the expected one.
\<close>

definition transient :: "env \<Rightarrow> string \<Rightarrow> data_response \<Rightarrow> bool" where
  "transient e md5sum' r =
     (case r of
        DataConnectionFailure \<Rightarrow> True
      | DataHttpError \<Rightarrow> True
      | Stream chunks broken \<Rightarrow> broken \<and> md5 e (Bytes (concat chunks)) \<noteq> md5sum')"

text \<open>
  The projects the log reports as taken up and as failed, and a step of the world that
  logs neither kind of event.
\<close>

definition processing_events :: "(level \<times> message) list \<Rightarrow> string list" where
  "processing_events l =
     concat (map (\<lambda>entry. case snd entry of Processing p \<Rightarrow> [p] | _ \<Rightarrow> []) l)"

definition failed_projects :: "(level \<times> message) list \<Rightarrow> string list" where
  "failed_projects l =
     concat (map (\<lambda>entry. case snd entry of Failed_to_process p \<Rightarrow> [p] | _ \<Rightarrow> []) l)"

definition quiet_step :: "world \<Rightarrow> world \<Rightarrow> bool" where
  "quiet_step w w' =
     (\<exists>extra. logs w' = logs w @ extra \<and> processing_events extra = [] \<and>
        failed_projects extra = [])"

section \<open>Sample inputs\<close>

definition tissue_record :: file_record where
  "tissue_record =
     \<lparr>file_id = ''f-1'', file_name = ''a.svs'', md5sum = ''0a'', case_id = Some ''P1'',
      file_size = Some 1048576, data_format = Some ''SVS'',
      experimental_strategy = Some ''Tissue Slide'',
      cases = Some [\<lparr>submitter_id = Some ''TCGA-A1-0001''\<rparr>]\<rparr>"

definition diagnostic_record :: file_record where
  "diagnostic_record =
     \<lparr>file_id = ''f-2'', file_name = ''b.tif'', md5sum = ''0b'', case_id = Some ''P1'',
      file_size = Some 2097152, data_format = Some ''TIFF'',
      experimental_strategy = Some ''Diagnostic Slide'',
      cases = Some [\<lparr>submitter_id = Some ''TCGA-A1-0001''\<rparr>]\<rparr>"

definition orphan_record :: file_record where
  "orphan_record =
     \<lparr>file_id = ''f-3'', file_name = ''c.svs'', md5sum = ''0c'', case_id = None,
      file_size = None, data_format = None,
      experimental_strategy = Some ''Tissue Slide'',
      cases = Some []\<rparr>"

text \<open>
  An environment without faults, whose digest of raw bytes is the bytes themselves, and
  worlds for the download engine: one that holds a verified copy of the slide, one whose
  data endpoint fails twice before it answers, one that answers at once.
\<close>

definition sample_env :: env where
  "sample_env =
     \<lparr>md5 = (\<lambda>c. case c of Bytes b \<Rightarrow> b | Json_doc d \<Rightarrow> [] | Csv_doc rows \<Rightarrow> []),
      os_fault = (\<lambda>p. False),
      set_iter = remdups,
      read_csv = (\<lambda>p. Inl OSError)\<rparr>"

definition empty_world :: world where
  "empty_world =
     \<lparr>fs = Map.empty, projects_api = [], files_api = [], data_api = [],
      requests = [], sleeps = [], logs = []\<rparr>"

definition cached_world :: world where
  "cached_world =
     empty_world
       \<lparr>fs := [''tcga_data/slides/TCGA-BRCA'' \<mapsto> Dir,
               ''tcga_data/slides/TCGA-BRCA/P1'' \<mapsto> Dir,
               ''tcga_data/slides/TCGA-BRCA/P1/a.svs'' \<mapsto> File (Bytes ''0a'')],
        data_api := [Stream [''zz''] False]\<rparr>"

definition flaky_world :: world where
  "flaky_world =
     empty_world
       \<lparr>fs := [''tcga_data/slides/TCGA-BRCA'' \<mapsto> Dir],
        data_api := [DataConnectionFailure, Stream [''sl''] True, Stream [''sl'', ''ide''] False]\<rparr>"

definition steady_world :: world where
  "steady_world = flaky_world\<lparr>data_api := [Stream [''slide''] False]\<rparr>"

definition read_only_env :: env where
  "read_only_env = sample_env\<lparr>os_fault := (\<lambda>p. p = ''tcga_data/slides/TCGA-BRCA/P1/a.svs'')\<rparr>"

text \<open>
  An environment whose sets are iterated in the reverse order, a patient group with two
  data formats, an environment whose CSV files have the single column \<open>ID\<close>, and a world
  whose catalog lists two projects.
\<close>

definition reversed_env :: env where
  "reversed_env = sample_env\<lparr>set_iter := (\<lambda>xs. rev (remdups xs))\<rparr>"

definition two_formats :: patient_group where
  "two_formats = [(''P1'', [tissue_record, diagnostic_record])]"


definition catalog_world :: world where
  "catalog_world = empty_world\<lparr>projects_api := [Json (Some [''TCGA-BRCA'', ''TCGA-LUAD''])]\<rparr>"

text \<open>
  An environment in which the metadata directory of the first project cannot be created,
  and a world whose catalog fails to deliver the manifest of the first project and
  delivers one slide for the second.
\<close>

definition no_metadata_dir_env :: env where
  "no_metadata_dir_env =
     sample_env\<lparr>os_fault := (\<lambda>p. p = ''tcga_data/metadata/TCGA-BRCA'')\<rparr>"

definition partial_catalog_world :: world where
  "partial_catalog_world =
     catalog_world\<lparr>files_api := [HttpError, Json (Some [tissue_record])]\<rparr>"

section \<open>Properties of the grouping stage\<close>

lemma all_files_append_slide:
  "mset (all_files (append_slide k f g)) = add_mset f (mset (all_files g))"
  by (induction k f g rule: append_slide.induct) (auto simp: all_files_def)

lemma keys_append_slide:
  "map fst (append_slide k f g) = (if k \<in> set (map fst g) then map fst g else map fst g @ [k])"
  by (induction k f g rule: append_slide.induct) auto

lemma distinct_append_slide:
  "distinct (map fst g) \<Longrightarrow> distinct (map fst (append_slide k f g))"
  by (simp add: keys_append_slide)

lemma well_keyed_append_slide:
  "well_keyed g \<Longrightarrow> identifier_of f = Inr k \<Longrightarrow> well_keyed (append_slide k f g)"
  by (induction k f g rule: append_slide.induct) (auto simp: well_keyed_def)

lemma group_loop_records:
  "group_loop files dt pids acc = Inr g \<Longrightarrow>
     mset (all_files g) = mset (all_files acc) + mset (filter (admitted dt pids) files)"
proof (induction files arbitrary: acc)
  case Nil
  then show ?case by simp
next
  case (Cons file0 files)
  then show ?case
    by (auto simp: admitted_def all_files_append_slide split: if_splits sum.splits)
qed

lemma group_loop_distinct:
  "group_loop files dt pids acc = Inr g \<Longrightarrow> distinct (map fst acc) \<Longrightarrow> distinct (map fst g)"
  by (induction files arbitrary: acc)
     (auto simp: distinct_append_slide split: if_splits sum.splits)

lemma group_loop_well_keyed:
  "group_loop files dt pids acc = Inr g \<Longrightarrow> well_keyed acc \<Longrightarrow> well_keyed g"
  by (induction files arbitrary: acc)
     (auto simp: well_keyed_append_slide split: if_splits sum.splits)

lemma identifier_of_total:
  "cases file \<noteq> Some [] \<Longrightarrow> \<exists>k. identifier_of file = Inr k"
  by (auto simp: identifier_of_def first_case_def split: option.splits list.splits)

lemma identifier_of_fails:
  "cases file = Some [] \<Longrightarrow> identifier_of file = Inl IndexError"
  by (simp add: identifier_of_def first_case_def)

lemma identifier_of_error:
  "identifier_of file = Inl e \<Longrightarrow> e = IndexError \<and> cases file = Some []"
  by (auto simp: identifier_of_def first_case_def split: option.splits list.splits sum.splits)

lemma group_loop_total:
  "\<forall>f \<in> set files. \<not> skipped_by_type dt f \<longrightarrow> cases f \<noteq> Some [] \<Longrightarrow>
     \<exists>g. group_loop files dt pids acc = Inr g"
proof (induction files arbitrary: acc)
  case Nil
  then show ?case by simp
next
  case (Cons file0 files)
  show ?case
  proof (cases "skipped_by_type dt file0")
    case True
    with Cons show ?thesis by simp
  next
    case False
    with Cons.prems obtain k where k: "identifier_of file0 = Inr k"
      using identifier_of_total by auto
    with False Cons show ?thesis by simp
  qed
qed

lemma group_loop_fails:
  "\<exists>f \<in> set files. \<not> skipped_by_type dt f \<and> cases f = Some [] \<Longrightarrow>
     group_loop files dt pids acc = Inl IndexError"
proof (induction files arbitrary: acc)
  case Nil
  then show ?case by simp
next
  case (Cons file0 files)
  show ?case
  proof (cases "\<not> skipped_by_type dt file0 \<and> cases file0 = Some []")
    case True
    then show ?thesis by (simp add: identifier_of_fails)
  next
    case False
    with Cons.prems have ex: "\<exists>f \<in> set files. \<not> skipped_by_type dt f \<and> cases f = Some []"
      by auto
    show ?thesis
      using Cons.IH[OF ex] identifier_of_error[of file0]
      by (auto split: sum.splits)
  qed
qed

lemma group_loop_wsi_eq:
  "group_loop_wsi files dt acc = group_loop files dt None acc"
  by (induction files arbitrary: acc)
     (auto simp: rejected_by_allow_list_def split: sum.splits)

lemma group_loop_empty_allow_list:
  "group_loop files dt (Some []) acc = group_loop files dt None acc"
  by (induction files arbitrary: acc)
     (auto simp: rejected_by_allow_list_def split: sum.splits)


lemmas grouping_defs =
  group_by_patient_def skipped_by_type_def strategy_of_def identifier_of_def first_case_def
  submitter_of_def py_or_def rejected_by_allow_list_def

lemma append_slide_member:
  "(k', sl') \<in> set (append_slide k f g) \<Longrightarrow> f' \<in> set sl' \<Longrightarrow>
     (f' = f \<and> k' = k) \<or> (\<exists>sl. (k', sl) \<in> set g \<and> f' \<in> set sl)"
  by (induction k f g rule: append_slide.induct) (auto split: if_splits)

lemma group_loop_invariant:
  assumes "group_loop files dt pids acc = Inr g"
    and "\<forall>(k, sl) \<in> set acc. \<forall>f \<in> set sl. P k f"
    and "\<forall>f \<in> set files. \<forall>k. \<not> skipped_by_type dt f \<longrightarrow> identifier_of f = Inr k \<longrightarrow>
           \<not> rejected_by_allow_list pids k \<longrightarrow> P k f"
  shows "\<forall>(k, sl) \<in> set g. \<forall>f \<in> set sl. P k f"
  using assms
proof (induction files arbitrary: acc)
  case Nil
  then show ?case by simp
next
  case (Cons file0 files)
  show ?case
  proof (cases "skipped_by_type dt file0")
    case True
    with Cons show ?thesis by simp
  next
    case False
    with Cons.prems(1) obtain k where k: "identifier_of file0 = Inr k"
      by (auto split: sum.splits)
    show ?thesis
    proof (cases "rejected_by_allow_list pids k")
      case True
      with False k Cons show ?thesis by simp
    next
      case rej: False
      have step: "group_loop files dt pids (append_slide k file0 acc) = Inr g"
        using Cons.prems(1) False k rej by simp
      have "P k file0" using Cons.prems(3) False k rej by simp
      then have inv: "\<forall>(k', sl) \<in> set (append_slide k file0 acc). \<forall>f \<in> set sl. P k' f"
        using Cons.prems(2) append_slide_member[of _ _ k file0 acc] by fastforce
      show ?thesis
        using Cons.IH[OF step inv] Cons.prems(3) by simp
    qed
  qed
qed


text \<open>
  Whenever \<open>group_by_patient\<close> returns, its groups partition the admitted records: the
  groups together hold each admitted record as often as the input does, the keys are
  distinct, no group is empty, and every record sits under its own identifier.
\<close>

lemma group_by_patient_partition:
  assumes "group_by_patient files dt pids = Inr g"
  shows "mset (all_files g) = mset (filter (admitted dt pids) files) \<and>
         distinct (map fst g) \<and> well_keyed g"
proof -
  from assms have loop: "group_loop files dt pids [] = Inr g"
    by (simp add: group_by_patient_def)
  from group_loop_records[OF loop] have "mset (all_files g) = mset (filter (admitted dt pids) files)"
    by (simp add: all_files_def)
  moreover from group_loop_distinct[OF loop] have "distinct (map fst g)" by simp
  moreover from group_loop_well_keyed[OF loop] have "well_keyed g" by (simp add: well_keyed_def)
  ultimately show ?thesis by simp
qed

text \<open>
  C1.  The claim: for every input sequence, slide-type filter and allow-list,
  \<open>group_by_patient\<close> produces a partition of the admitted records, and no admitted record
  is missing from the output.  The code does not: on a manifest that holds an admitted
  record and a record whose \<open>cases\<close> list is empty, the call raises \<open>IndexError\<close> and
  produces no group at all, so the admitted record is lost with the rest.
\<close>

theorem group_by_patient_loses_admitted_records:
  "group_by_patient [tissue_record, orphan_record] ''both'' None = Inl IndexError"
  by (simp add: grouping_defs tissue_record_def orphan_record_def)


text \<open>
  C6, as the claim states it: with an allow-list given, a record is admitted only if its
  identifier is in the list.  An empty allow-list is given here, the identifier \<open>P1\<close> is not
  in it, and the record is admitted all the same.
\<close>

theorem empty_allow_list_admits_nonmember:
  "group_by_patient [tissue_record] ''both'' (Some []) = Inr [(''P1'', [tissue_record])] \<and>
   ''P1'' \<notin> set []"
  by (simp add: grouping_defs tissue_record_def)


text \<open>
  C6, amended.  Every record in a group of the output is a record of the input, sits under
  its resolved patient identifier, has the experimental strategy the filter names
  (\<open>Tissue Slide\<close> for \<open>tissue\<close>, \<open>Diagnostic Slide\<close> for \<open>diagnostic\<close>; any other filter,
  \<open>both\<close> included, admits every strategy), and, when a non-empty allow-list is given,
  has its identifier in that list.  With the filter \<open>tissue\<close> and one Tissue Slide and one
  Diagnostic Slide record of the same patient, in either order, the output is the one
  group holding the Tissue Slide record alone.
\<close>

theorem group_by_patient_admits_only:
  "(\<forall>g k slides f.
      group_by_patient files dt pids = Inr g \<longrightarrow> (k, slides) \<in> set g \<longrightarrow> f \<in> set slides \<longrightarrow>
        f \<in> set files \<and> identifier_of f = Inr k \<and>
        (dt = ''tissue'' \<longrightarrow> strategy_of f = ''Tissue Slide'') \<and>
        (dt = ''diagnostic'' \<longrightarrow> strategy_of f = ''Diagnostic Slide'') \<and>
        (\<forall>l. pids = Some l \<longrightarrow> l \<noteq> [] \<longrightarrow> k \<in> set l)) \<and>
   (strategy_of t = ''Tissue Slide'' \<longrightarrow> strategy_of d = ''Diagnostic Slide'' \<longrightarrow>
      identifier_of t = Inr p \<longrightarrow>
        group_by_patient [t, d] ''tissue'' None = Inr [(p, [t])] \<and>
        group_by_patient [d, t] ''tissue'' None = Inr [(p, [t])])"
proof (intro conjI allI impI)
  fix g k slides f
  assume g: "group_by_patient files dt pids = Inr g" and k: "(k, slides) \<in> set g"
    and f: "f \<in> set slides"
  let ?P = "\<lambda>k f. f \<in> set files \<and> identifier_of f = Inr k \<and> \<not> skipped_by_type dt f \<and>
              \<not> rejected_by_allow_list pids k"
  have "\<forall>(k, sl) \<in> set g. \<forall>f \<in> set sl. ?P k f"
    by (rule group_loop_invariant[OF g[unfolded group_by_patient_def]]) auto
  with k f have P: "?P k f" by auto
  from P show "f \<in> set files" by simp
  from P show "identifier_of f = Inr k" by simp
  { assume "dt = ''tissue''" with P show "strategy_of f = ''Tissue Slide''"
      by (simp add: skipped_by_type_def) }
  { assume "dt = ''diagnostic''" with P show "strategy_of f = ''Diagnostic Slide''"
      by (simp add: skipped_by_type_def) }
  { fix l assume "pids = Some l" "l \<noteq> []" with P show "k \<in> set l"
      by (simp add: rejected_by_allow_list_def) }
next
  assume "strategy_of t = ''Tissue Slide''" "strategy_of d = ''Diagnostic Slide''"
    "identifier_of t = Inr p"
  then show "group_by_patient [t, d] ''tissue'' None = Inr [(p, [t])]"
    by (simp add: group_by_patient_def skipped_by_type_def rejected_by_allow_list_def)
next
  assume "strategy_of t = ''Tissue Slide''" "strategy_of d = ''Diagnostic Slide''"
    "identifier_of t = Inr p"
  then show "group_by_patient [d, t] ''tissue'' None = Inr [(p, [t])]"
    by (simp add: group_by_patient_def skipped_by_type_def rejected_by_allow_list_def)
qed


theorem group_by_patient_admits_only_witness:
  "group_by_patient [tissue_record, diagnostic_record] ''tissue'' (Some [''P1'']) =
     Inr [(''P1'', [tissue_record])] \<and>
   tissue_record \<in> set [tissue_record, diagnostic_record] \<and>
   identifier_of tissue_record = Inr ''P1'' \<and>
   strategy_of tissue_record = ''Tissue Slide'' \<and>
   strategy_of diagnostic_record = ''Diagnostic Slide'' \<and>
   ''P1'' \<in> set [''P1''] \<and>
   group_by_patient [tissue_record, diagnostic_record] ''tissue'' None =
     Inr [(''P1'', [tissue_record])]"
  using group_by_patient_admits_only [of "[tissue_record, diagnostic_record]" "''tissue''" "Some [''P1'']"
      tissue_record diagnostic_record "''P1''"]
  by (simp add: grouping_defs tissue_record_def diagnostic_record_def)


text \<open>
  C7.  The claim: the group key of every record is its case identifier when present,
  otherwise its first submitter identifier, and the literal \<open>Unknown\<close> when both are
  absent.  The code computes \<open>file.get("cases", [{}])[0]\<close> before it looks at the case
  identifier, so for every record whose \<open>cases\<close> list is present and empty, whatever its
  case identifier, no key is resolved: the lookup and the whole grouping pass raise
  \<open>IndexError\<close>, in both programs.
\<close>

theorem group_by_patient_no_unknown_fallback:
  "identifier_of (file\<lparr>cases := Some []\<rparr>) = Inl IndexError \<and>
   group_by_patient [file\<lparr>cases := Some []\<rparr>] ''both'' patient_ids = Inl IndexError \<and>
   group_by_patient_wsi [file\<lparr>cases := Some []\<rparr>] ''both'' = Inl IndexError"
  by (simp add: grouping_defs group_by_patient_wsi_def)


text \<open>
  C9.  Grouping is not total: a record that passes the filter, has no case identifier and
  has an empty \<open>cases\<close> list makes \<open>group_by_patient\<close> raise \<open>IndexError\<close>.  The call
  returns exactly when no record that passes the slide-type guards has an empty \<open>cases\<close>
  list; so it returns whenever every \<open>cases\<close> field that is present is non-empty, and
  under the filter \<open>both\<close>, which skips no record, it returns only then.
\<close>

theorem group_by_patient_total_iff:
  "group_by_patient [orphan_record] ''both'' None = Inl IndexError \<and>
   group_by_patient_wsi [orphan_record] ''both'' = Inl IndexError \<and>
   ((\<exists>g. group_by_patient files dt pids = Inr g) =
      (\<forall>f \<in> set files. \<not> skipped_by_type dt f \<longrightarrow> cases f \<noteq> Some [])) \<and>
   ((\<forall>f \<in> set files. cases f \<noteq> Some []) \<longrightarrow>
      (\<exists>g. group_by_patient files dt pids = Inr g) \<and>
      (\<exists>g. group_by_patient_wsi files dt = Inr g)) \<and>
   ((\<exists>f \<in> set files. cases f = Some []) \<longrightarrow>
      group_by_patient files ''both'' pids = Inl IndexError \<and>
      group_by_patient_wsi files ''both'' = Inl IndexError)"
proof (intro conjI impI)
  show "group_by_patient [orphan_record] ''both'' None = Inl IndexError"
    by (simp add: grouping_defs orphan_record_def)
  show "group_by_patient_wsi [orphan_record] ''both'' = Inl IndexError"
    by (simp add: grouping_defs group_by_patient_wsi_def orphan_record_def)
  show "(\<exists>g. group_by_patient files dt pids = Inr g) =
      (\<forall>f \<in> set files. \<not> skipped_by_type dt f \<longrightarrow> cases f \<noteq> Some [])"
  proof (cases "\<exists>f \<in> set files. \<not> skipped_by_type dt f \<and> cases f = Some []")
    case True
    then have "group_loop files dt pids [] = Inl IndexError"
      by (rule group_loop_fails)
    with True show ?thesis by (auto simp: group_by_patient_def)
  next
    case False
    then have ok: "\<forall>f \<in> set files. \<not> skipped_by_type dt f \<longrightarrow> cases f \<noteq> Some []"
      by auto
    from group_loop_total[OF ok] ok show ?thesis
      by (simp add: group_by_patient_def)
  qed
next
  assume a: "\<forall>f \<in> set files. cases f \<noteq> Some []"
  then show "\<exists>g. group_by_patient files dt pids = Inr g"
    unfolding group_by_patient_def using group_loop_total[of files dt pids "[]"] by auto
  from a show "\<exists>g. group_by_patient_wsi files dt = Inr g"
    unfolding group_by_patient_wsi_def group_loop_wsi_eq
    using group_loop_total[of files dt None "[]"] by auto
next
  assume a: "\<exists>f \<in> set files. cases f = Some []"
  then show "group_by_patient files ''both'' pids = Inl IndexError"
    unfolding group_by_patient_def
    using group_loop_fails[of files "''both''" pids "[]"] by (auto simp: skipped_by_type_def)
  from a show "group_by_patient_wsi files ''both'' = Inl IndexError"
    unfolding group_by_patient_wsi_def group_loop_wsi_eq
    using group_loop_fails[of files "''both''" None "[]"] by (auto simp: skipped_by_type_def)
qed


theorem group_by_patient_total_iff_witness:
  "(\<exists>g. group_by_patient [tissue_record, diagnostic_record] ''both'' None = Inr g) \<and>
   cases tissue_record \<noteq> Some [] \<and> cases diagnostic_record \<noteq> Some [] \<and>
   cases orphan_record = Some [] \<and>
   group_by_patient [tissue_record, orphan_record] ''both'' (Some [''P1'']) = Inl IndexError"
  using group_by_patient_total_iff [of "[tissue_record, diagnostic_record]" "''both''" None]
    group_by_patient_total_iff [of "[tissue_record, orphan_record]" "''both''" "Some [''P1'']"]
  by (simp add: tissue_record_def diagnostic_record_def orphan_record_def)


text \<open>
  C10.  An allow-list that is given but empty filters nothing: the result is that of the
  call without an allow-list, and the groups hold exactly the records that pass the
  slide-type filter.
\<close>

theorem empty_allow_list_is_no_filter:
  "group_by_patient files dt (Some []) = group_by_patient files dt None \<and>
   (\<forall>g. group_by_patient files dt (Some []) = Inr g \<longrightarrow>
      mset (all_files g) = mset (filter (\<lambda>f. \<not> skipped_by_type dt f) files))"
proof (intro conjI allI impI)
  show "group_by_patient files dt (Some []) = group_by_patient files dt None"
    by (simp add: group_by_patient_def group_loop_empty_allow_list)
next
  fix g assume g: "group_by_patient files dt (Some []) = Inr g"
  have ok: "\<forall>f \<in> set files. \<not> skipped_by_type dt f \<longrightarrow> cases f \<noteq> Some []"
    using g group_loop_fails[of files dt "Some []" "[]"] by (auto simp: group_by_patient_def)
  have "filter (admitted dt (Some [])) files = filter (\<lambda>f. \<not> skipped_by_type dt f) files"
    using ok identifier_of_total
    by (intro filter_cong) (auto simp: admitted_def rejected_by_allow_list_def split: sum.splits dest: identifier_of_error)
  with group_loop_records[OF g[unfolded group_by_patient_def]]
  show "mset (all_files g) = mset (filter (\<lambda>f. \<not> skipped_by_type dt f) files)"
    by (simp add: all_files_def)
qed


theorem empty_allow_list_is_no_filter_witness:
  "group_by_patient [tissue_record, diagnostic_record] ''tissue'' (Some []) =
     Inr [(''P1'', [tissue_record])] \<and>
   mset (all_files [(''P1'', [tissue_record])]) =
     mset (filter (\<lambda>f. \<not> skipped_by_type ''tissue'' f) [tissue_record, diagnostic_record])"
  using empty_allow_list_is_no_filter [of "[tissue_record, diagnostic_record]" "''tissue''"]
  by (simp add: grouping_defs tissue_record_def diagnostic_record_def)

section \<open>Properties of the download engine\<close>

subsection \<open>The retry policy\<close>

lemma retry_call_success:
  "fn w = (Inr v, w1) \<Longrightarrow> retry_call stop wait fn n w = ((Inr v, n), w1)"
  by (subst retry_call.simps) simp

lemma retry_call_fatal:
  "fn w = (Inl err, w1) \<Longrightarrow> err \<noteq> RequestException \<Longrightarrow>
     retry_call stop wait fn n w = ((Inl err, n), w1)"
  by (subst retry_call.simps) simp

lemma retry_call_exhausted:
  "fn w = (Inl RequestException, w1) \<Longrightarrow> stop \<le> n \<Longrightarrow>
     retry_call stop wait fn n w = ((Inl RetryError, n), w1)"
  by (subst retry_call.simps) simp

lemma retry_call_again:
  "fn w = (Inl RequestException, w1) \<Longrightarrow> n < stop \<Longrightarrow>
     retry_call stop wait fn n w =
       retry_call stop wait fn (Suc n)
         (sleep (wait n) (log_event WARNING (Retrying n) w1))"
  by (subst retry_call.simps) simp

lemma retry_call_cases:
  fixes fn :: "world \<Rightarrow> (py_error + unit) \<times> world" and stop n :: nat
  obtains (success) v w1 where "fn w = (Inr v, w1)"
  | (fatal) err w1 where "fn w = (Inl err, w1)" "err \<noteq> RequestException"
  | (exhausted) w1 where "fn w = (Inl RequestException, w1)" "stop \<le> n"
  | (again) w1 where "fn w = (Inl RequestException, w1)" "n < stop"
proof (cases "fn w")
  case (Pair r w1)
  show ?thesis
  proof (cases r)
    case (Inl err)
    with Pair show ?thesis
      using fatal exhausted again by (cases "err = RequestException"; cases "n < stop") auto
  next
    case (Inr v)
    with Pair show ?thesis using success by blast
  qed
qed

lemma retry_call_attempts:
  "n \<le> snd (fst (retry_call stop wait fn n w)) \<and>
   snd (fst (retry_call stop wait fn n w)) \<le> max stop n"
proof (induction stop wait fn n w rule: retry_call.induct)
  case (1 stop wait fn n w)
  show ?case
  proof (cases rule: retry_call_cases[where fn=fn and w=w and stop=stop and n=n])
    case (success v w1)
    then show ?thesis by (simp add: retry_call_success)
  next
    case (fatal err w1)
    then show ?thesis by (simp add: retry_call_fatal)
  next
    case (exhausted w1)
    then show ?thesis by (simp add: retry_call_exhausted)
  next
    case (again w1)
    note RA = retry_call_again[where fn=fn and w=w, OF again]
    from "1.IH"[OF again(1)[symmetric] refl] again(2)
    show ?thesis by (simp add: RA)
  qed
qed

lemma retry_call_sleeps:
  assumes "\<And>w. sleeps (snd (fn w)) = sleeps w"
  shows "sleeps (snd (retry_call stop wait fn n w)) =
           sleeps w @ map wait [n..<snd (fst (retry_call stop wait fn n w))]"
  using assms
proof (induction stop wait fn n w rule: retry_call.induct)
  case (1 stop wait fn n w)
  note assms = "1.prems"
  show ?case
  proof (cases rule: retry_call_cases[where fn=fn and w=w and stop=stop and n=n])
    case (success v w1)
    from assms[of w] have "sleeps w1 = sleeps w" by (simp add: success)
    then show ?thesis by (simp add: retry_call_success[where fn=fn and w=w, OF success])
  next
    case (fatal err w1)
    from assms[of w] have "sleeps w1 = sleeps w" by (simp add: fatal)
    then show ?thesis by (simp add: retry_call_fatal[where fn=fn and w=w, OF fatal])
  next
    case (exhausted w1)
    from assms[of w] have "sleeps w1 = sleeps w" by (simp add: exhausted)
    then show ?thesis by (simp add: retry_call_exhausted[where fn=fn and w=w, OF exhausted])
  next
    case (again w1)
    note RA = retry_call_again[where fn=fn and w=w, OF again]
    let ?w2 = "sleep (wait n) (log_event WARNING (Retrying n) w1)"
    have le: "Suc n \<le> snd (fst (retry_call stop wait fn (Suc n) ?w2))"
      using retry_call_attempts[of "Suc n" stop wait fn ?w2] by simp
    from assms[of w] have "sleeps w1 = sleeps w" by (simp add: again)
    then have s2: "sleeps ?w2 = sleeps w @ [wait n]"
      by (simp add: sleep_def log_event_def)
    from "1.IH"[OF again(1)[symmetric] refl] again(2) assms
    have "sleeps (snd (retry_call stop wait fn (Suc n) ?w2)) =
            sleeps ?w2 @ map wait [Suc n..<snd (fst (retry_call stop wait fn (Suc n) ?w2))]"
      by simp
    with s2 le show ?thesis
      by (simp add: RA upt_conv_Cons)
  qed
qed

lemma retry_call_requests:
  assumes "\<And>w. length (requests (snd (fn w))) \<le> Suc (length (requests w))"
  shows "length (requests (snd (retry_call stop wait fn n w))) + n \<le>
           length (requests w) + Suc (snd (fst (retry_call stop wait fn n w)))"
  using assms
proof (induction stop wait fn n w rule: retry_call.induct)
  case (1 stop wait fn n w)
  note assms = "1.prems"
  show ?case
  proof (cases rule: retry_call_cases[where fn=fn and w=w and stop=stop and n=n])
    case (success v w1)
    from assms[of w] have "length (requests w1) \<le> Suc (length (requests w))"
      by (simp add: success)
    then show ?thesis by (simp add: retry_call_success[where fn=fn and w=w, OF success])
  next
    case (fatal err w1)
    from assms[of w] have "length (requests w1) \<le> Suc (length (requests w))"
      by (simp add: fatal)
    then show ?thesis by (simp add: retry_call_fatal[where fn=fn and w=w, OF fatal])
  next
    case (exhausted w1)
    from assms[of w] have "length (requests w1) \<le> Suc (length (requests w))"
      by (simp add: exhausted)
    then show ?thesis by (simp add: retry_call_exhausted[where fn=fn and w=w, OF exhausted])
  next
    case (again w1)
    note RA = retry_call_again[where fn=fn and w=w, OF again]
    let ?w2 = "sleep (wait n) (log_event WARNING (Retrying n) w1)"
    from assms[of w] have "length (requests w1) \<le> Suc (length (requests w))"
      by (simp add: again)
    then have r2: "length (requests ?w2) \<le> Suc (length (requests w))"
      by (simp add: sleep_def log_event_def)
    from "1.IH"[OF again(1)[symmetric] refl] again(2) assms
    have "length (requests (snd (retry_call stop wait fn (Suc n) ?w2))) + Suc n \<le>
            length (requests ?w2) + Suc (snd (fst (retry_call stop wait fn (Suc n) ?w2)))"
      by simp
    with r2 show ?thesis
      by (simp add: RA)
  qed
qed

lemma retry_call_first_attempt:
  "n < snd (fst (retry_call stop wait fn n w)) \<Longrightarrow> fst (fn w) = Inl RequestException"
  by (cases rule: retry_call_cases[where fn=fn and w=w and stop=stop and n=n])
     (simp_all add: retry_call_success retry_call_fatal retry_call_exhausted)

lemma retry_call_retry_error:
  assumes "fst (fst (retry_call stop wait fn n w)) = Inl RetryError"
    and "\<And>w. fst (fn w) \<noteq> Inl RetryError"
  shows "stop \<le> snd (fst (retry_call stop wait fn n w))"
  using assms
proof (induction stop wait fn n w rule: retry_call.induct)
  case (1 stop wait fn n w)
  note assms = "1.prems"(2)
  show ?case
  proof (cases rule: retry_call_cases[where fn=fn and w=w and stop=stop and n=n])
    case (success v w1)
    with "1.prems"(1) show ?thesis by (simp add: retry_call_success[where fn=fn and w=w, OF success])
  next
    case (fatal err w1)
    from assms[of w] have "err \<noteq> RetryError" by (simp add: fatal)
    with "1.prems"(1) show ?thesis by (simp add: retry_call_fatal[where fn=fn and w=w, OF fatal])
  next
    case (exhausted w1)
    then show ?thesis by (simp add: retry_call_exhausted[where fn=fn and w=w, OF exhausted])
  next
    case (again w1)
    note RA = retry_call_again[where fn=fn and w=w, OF again]
    from "1.IH"[OF again(1)[symmetric] refl] again(2) "1.prems"
    show ?thesis by (simp add: RA)
  qed
qed

lemma wait_exponential_bounds:
  "4 \<le> wait_exponential 1 4 10 k \<and> wait_exponential 1 4 10 k \<le> 10"
  by (simp add: wait_exponential_def)

lemma wait_exponential_first: "wait_exponential 1 4 10 1 = 4" "wait_exponential 1 4 10 2 = 4"
  by (simp_all add: wait_exponential_def)

subsection \<open>One attempt\<close>

lemmas world_ops = log_event_def sleep_def get_data_def

lemma fetch_file_sleeps:
  "sleeps (snd (fetch_file e pid fid fname ident out w)) = sleeps w"
  by (auto simp: fetch_file_def world_ops write_file_def
           split: list.splits data_response.splits sum.splits if_splits)

lemma fetch_file_requests:
  "requests (snd (fetch_file e pid fid fname ident out w)) =
     requests w @ [GDC_API_ENDPOINT @ ''/data/'' @ fid]"
  by (auto simp: fetch_file_def world_ops write_file_def
           split: list.splits data_response.splits sum.splits if_splits)

lemma fetch_file_error:
  "fst (fetch_file e pid fid fname ident out w) \<noteq> Inl RetryError"
  by (auto simp: fetch_file_def world_ops write_file_def
           split: list.splits data_response.splits sum.splits if_splits)

lemma body_sleeps:
  "sleeps (snd (download_file_body e pid fid fname ident md psd w)) = sleeps w"
  by (auto simp: download_file_body_def fetch_file_sleeps log_event_def mkdir_exist_ok_def
           split: option.splits node.splits sum.splits if_splits)

lemma body_requests:
  "length (requests (snd (download_file_body e pid fid fname ident md psd w))) \<le>
     Suc (length (requests w))"
  by (auto simp: download_file_body_def fetch_file_requests log_event_def mkdir_exist_ok_def
           split: option.splits node.splits sum.splits if_splits)

lemma body_error:
  "fst (download_file_body e pid fid fname ident md psd w) \<noteq> Inl RetryError"
  by (auto simp: download_file_body_def fetch_file_error mkdir_exist_ok_def
           split: option.splits node.splits sum.splits if_splits)

lemma mkdir_exist_ok_result:
  "mkdir_exist_ok e p m = Inr m' \<Longrightarrow> m' p = Some Dir \<and> (\<forall>q. q \<noteq> p \<longrightarrow> m' q = m q)"
  by (auto simp: mkdir_exist_ok_def split: option.splits node.splits if_splits)

lemma mkdir_exist_ok_keeps_file:
  "mkdir_exist_ok e p m = Inr m' \<Longrightarrow> m q = Some (File c) \<Longrightarrow> m' q = Some (File c)"
  by (auto simp: mkdir_exist_ok_def split: option.splits node.splits if_splits)

lemma mkdir_exist_ok_failure_keeps:
  "mkdir_exist_ok e p m = Inl err \<Longrightarrow> err = OSError"
  by (auto simp: mkdir_exist_ok_def split: option.splits node.splits if_splits)

lemma body_skip:
  assumes "mkdir_exist_ok e (path_join psd ident) (fs w) = Inr m"
    and "fs w (path_join (path_join psd ident) fname) = Some (File c)"
    and "md5 e c = md"
  shows "download_file_body e pid fid fname ident md psd w =
           (Inr (), log_event INFO (Skipping fname pid ident) (w\<lparr>fs := m\<rparr>))"
  using assms mkdir_exist_ok_keeps_file[OF assms(1) assms(2)]
  by (simp add: download_file_body_def)

lemma wsi_skip:
  assumes "mkdir_exist_ok e (path_join psd ident) (fs w) = Inr m"
    and "fs w (path_join (path_join psd ident) fname) = Some (File c)"
    and "md5 e c = md"
  shows "download_file_wsi e pid fid fname ident md psd w =
           (Inr (), log_event INFO (Skipping fname pid ident) (w\<lparr>fs := m\<rparr>))"
  using assms mkdir_exist_ok_keeps_file[OF assms(1) assms(2)]
  by (simp add: download_file_wsi_def)

lemma body_present_no_request:
  assumes "fs w (path_join (path_join psd ident) fname) = Some (File c)"
    and "md5 e c = md"
  shows "requests (snd (download_file_body e pid fid fname ident md psd w)) = requests w \<and>
         data_api (snd (download_file_body e pid fid fname ident md psd w)) = data_api w \<and>
         fs (snd (download_file_body e pid fid fname ident md psd w))
           (path_join (path_join psd ident) fname) = Some (File c) \<and>
         fst (download_file_body e pid fid fname ident md psd w) \<noteq> Inl RequestException"
proof (cases "mkdir_exist_ok e (path_join psd ident) (fs w)")
  case (Inl err)
  with assms mkdir_exist_ok_failure_keeps[OF Inl] show ?thesis
    by (simp add: download_file_body_def)
next
  case (Inr m)
  from body_skip[OF Inr assms] mkdir_exist_ok_keeps_file[OF Inr assms(1)]
  show ?thesis by (simp add: log_event_def)
qed

lemma wsi_present_no_request:
  assumes "fs w (path_join (path_join psd ident) fname) = Some (File c)"
    and "md5 e c = md"
  shows "requests (snd (download_file_wsi e pid fid fname ident md psd w)) = requests w \<and>
         data_api (snd (download_file_wsi e pid fid fname ident md psd w)) = data_api w \<and>
         fs (snd (download_file_wsi e pid fid fname ident md psd w))
           (path_join (path_join psd ident) fname) = Some (File c)"
proof (cases "mkdir_exist_ok e (path_join psd ident) (fs w)")
  case (Inl err)
  with assms show ?thesis
    by (simp add: download_file_wsi_def)
next
  case (Inr m)
  from wsi_skip[OF Inr assms] mkdir_exist_ok_keeps_file[OF Inr assms(1)]
  show ?thesis by (simp add: log_event_def)
qed

lemma download_file_once:
  assumes "fst (download_file_body e pid fid fname ident md psd w) \<noteq> Inl RequestException"
  shows "download_file e pid fid fname ident md psd w =
           ((fst (download_file_body e pid fid fname ident md psd w), 1),
            snd (download_file_body e pid fid fname ident md psd w))"
proof (cases "download_file_body e pid fid fname ident md psd w")
  case (Pair r w1)
  show ?thesis
  proof (cases r)
    case (Inl err)
    with Pair assms have "err \<noteq> RequestException" by simp
    with Pair Inl show ?thesis
      unfolding download_file_def
      by (simp add: retry_call_fatal[where fn="download_file_body e pid fid fname ident md psd" and w=w])
  next
    case (Inr v)
    with Pair show ?thesis
      unfolding download_file_def
      by (simp add: retry_call_success[where fn="download_file_body e pid fid fname ident md psd" and w=w])
  qed
qed


text \<open>
  C2.  When the target path holds a file whose checksum is the expected one,
  \<open>download_file\<close> (of either program) sends no request, consumes no answer of the data
  endpoint, does not wait, and leaves the file as it is; the decorated function makes one
  attempt.  Where the patient directory exists or can be created, as it does whenever
  the target lies inside it, the call returns normally, having logged that the file is
  skipped and touched nothing else but that directory.
\<close>

theorem download_file_skips_verified_file:
  assumes "fs w (path_join (path_join psd ident) fname) = Some (File c)"
    and "md5 e c = md"
  shows
    "requests (snd (download_file e pid fid fname ident md psd w)) = requests w \<and>
     data_api (snd (download_file e pid fid fname ident md psd w)) = data_api w \<and>
     sleeps (snd (download_file e pid fid fname ident md psd w)) = sleeps w \<and>
     fs (snd (download_file e pid fid fname ident md psd w))
       (path_join (path_join psd ident) fname) = Some (File c) \<and>
     snd (fst (download_file e pid fid fname ident md psd w)) = 1 \<and>
     requests (snd (download_file_wsi e pid fid fname ident md psd w)) = requests w \<and>
     data_api (snd (download_file_wsi e pid fid fname ident md psd w)) = data_api w \<and>
     fs (snd (download_file_wsi e pid fid fname ident md psd w))
       (path_join (path_join psd ident) fname) = Some (File c) \<and>
     (\<forall>m. mkdir_exist_ok e (path_join psd ident) (fs w) = Inr m \<longrightarrow>
        download_file e pid fid fname ident md psd w =
          ((Inr (), 1), log_event INFO (Skipping fname pid ident) (w\<lparr>fs := m\<rparr>)) \<and>
        download_file_wsi e pid fid fname ident md psd w =
          (Inr (), log_event INFO (Skipping fname pid ident) (w\<lparr>fs := m\<rparr>)))"
proof -
  note b = body_present_no_request[OF assms, of pid fid]
  from b have once: "download_file e pid fid fname ident md psd w =
           ((fst (download_file_body e pid fid fname ident md psd w), 1),
            snd (download_file_body e pid fid fname ident md psd w))"
    by (intro download_file_once) simp
  have skip: "\<forall>m. mkdir_exist_ok e (path_join psd ident) (fs w) = Inr m \<longrightarrow>
        download_file e pid fid fname ident md psd w =
          ((Inr (), 1), log_event INFO (Skipping fname pid ident) (w\<lparr>fs := m\<rparr>)) \<and>
        download_file_wsi e pid fid fname ident md psd w =
          (Inr (), log_event INFO (Skipping fname pid ident) (w\<lparr>fs := m\<rparr>))"
    using once body_skip[OF _ assms, of _ pid fid] wsi_skip[OF _ assms, of _ pid fid]
    by simp
  show ?thesis
    using b once body_sleeps[of e pid fid fname ident md psd w]
      wsi_present_no_request[OF assms, of pid fid] skip
    by simp
qed

theorem download_file_skips_verified_file_witness:
  "fs cached_world (path_join (path_join ''tcga_data/slides/TCGA-BRCA'' ''P1'') ''a.svs'') =
     Some (File (Bytes ''0a'')) \<and>
   md5 sample_env (Bytes ''0a'') = ''0a'' \<and>
   mkdir_exist_ok sample_env (path_join ''tcga_data/slides/TCGA-BRCA'' ''P1'') (fs cached_world) =
     Inr (fs cached_world) \<and>
   download_file sample_env ''TCGA-BRCA'' ''f-1'' ''a.svs'' ''P1'' ''0a''
       ''tcga_data/slides/TCGA-BRCA'' cached_world =
     ((Inr (), 1),
      cached_world\<lparr>logs := [(INFO, Skipping ''a.svs'' ''TCGA-BRCA'' ''P1'')]\<rparr>) \<and>
   requests (snd (download_file sample_env ''TCGA-BRCA'' ''f-1'' ''a.svs'' ''P1'' ''0a''
       ''tcga_data/slides/TCGA-BRCA'' cached_world)) = []"
  using download_file_skips_verified_file [of cached_world "''tcga_data/slides/TCGA-BRCA''" "''P1''" "''a.svs''" "Bytes ''0a''"
      sample_env "''0a''" "''TCGA-BRCA''" "''f-1''"]
  by (simp add: cached_world_def empty_world_def sample_env_def path_join_def
        mkdir_exist_ok_def log_event_def)

subsection \<open>Three attempts\<close>

lemma body_failed_attempt:
  assumes mk: "mkdir_exist_ok e (path_join psd ident) (fs w) = Inr m"
    and nd: "m (path_join (path_join psd ident) fname) \<noteq> Some Dir"
    and nf: "\<not> os_fault e (path_join (path_join psd ident) fname)"
    and nm: "\<forall>c. m (path_join (path_join psd ident) fname) = Some (File c) \<longrightarrow> md5 e c \<noteq> md"
    and api: "data_api w = r # rs"
    and tr: "transient e md r"
  obtains w' where
    "download_file_body e pid fid fname ident md psd w = (Inl RequestException, w')"
    "data_api w' = rs"
    "requests w' = requests w @ [GDC_API_ENDPOINT @ ''/data/'' @ fid]"
    "mkdir_exist_ok e (path_join psd ident) (fs w') = Inr (fs w')"
    "fs w' (path_join (path_join psd ident) fname) \<noteq> Some Dir"
    "\<forall>c. fs w' (path_join (path_join psd ident) fname) = Some (File c) \<longrightarrow> md5 e c \<noteq> md"
proof -
  let ?pd = "path_join psd ident"
  let ?out = "path_join ?pd fname"
  from mkdir_exist_ok_result[OF mk] have pd: "m ?pd = Some Dir" by simp
  with nd have ne: "?out \<noteq> ?pd" by auto
  let ?w' = "snd (download_file_body e pid fid fname ident md psd w)"
  have 1: "download_file_body e pid fid fname ident md psd w = (Inl RequestException, ?w')"
    using mk nd nf nm api tr
    by (cases r; cases "m ?out")
       (auto simp: download_file_body_def fetch_file_def world_ops write_file_def transient_def
             split: node.splits)
  have 2: "data_api ?w' = rs"
    using mk nd nf nm api tr
    by (cases r; cases "m ?out")
       (auto simp: download_file_body_def fetch_file_def world_ops write_file_def transient_def
             split: node.splits)
  have 3: "requests ?w' = requests w @ [GDC_API_ENDPOINT @ ''/data/'' @ fid]"
    using mk nd nf nm api tr
    by (cases r; cases "m ?out")
       (auto simp: download_file_body_def fetch_file_def world_ops write_file_def transient_def
             split: node.splits)
  have 4: "fs ?w' = (case r of Stream c b \<Rightarrow> m(?out \<mapsto> File (Bytes (concat c))) | _ \<Rightarrow> m)"
    using mk nd nf nm api tr
    by (cases r; cases "m ?out")
       (auto simp: download_file_body_def fetch_file_def world_ops write_file_def transient_def
             split: node.splits)
  from 4 pd ne have 5: "fs ?w' ?pd = Some Dir"
    by (cases r) auto
  then have 6: "mkdir_exist_ok e ?pd (fs ?w') = Inr (fs ?w')"
    by (simp add: mkdir_exist_ok_def)
  from 4 nd have 7: "fs ?w' ?out \<noteq> Some Dir"
    by (cases r) auto
  from 4 nm tr have 8: "\<forall>c. fs ?w' ?out = Some (File c) \<longrightarrow> md5 e c \<noteq> md"
    by (cases r) (auto simp: transient_def)
  from 1 2 3 6 7 8 show ?thesis by (rule that)
qed

lemma body_successful_attempt:
  assumes mk: "mkdir_exist_ok e (path_join psd ident) (fs w) = Inr m"
    and nd: "m (path_join (path_join psd ident) fname) \<noteq> Some Dir"
    and nf: "\<not> os_fault e (path_join (path_join psd ident) fname)"
    and nm: "\<forall>c. m (path_join (path_join psd ident) fname) = Some (File c) \<longrightarrow> md5 e c \<noteq> md"
    and api: "data_api w = Stream chunks False # rs"
  obtains w' where
    "download_file_body e pid fid fname ident md psd w = (Inr (), w')"
    "data_api w' = rs"
    "requests w' = requests w @ [GDC_API_ENDPOINT @ ''/data/'' @ fid]"
    "fs w' (path_join (path_join psd ident) fname) = Some (File (Bytes (concat chunks)))"
    "sleeps w' = sleeps w"
proof -
  let ?out = "path_join (path_join psd ident) fname"
  let ?w' = "snd (download_file_body e pid fid fname ident md psd w)"
  have 1: "download_file_body e pid fid fname ident md psd w = (Inr (), ?w')"
    using mk nd nf nm api
    by (cases "m ?out")
       (auto simp: download_file_body_def fetch_file_def world_ops write_file_def
             split: node.splits)
  have 2: "data_api ?w' = rs \<and> requests ?w' = requests w @ [GDC_API_ENDPOINT @ ''/data/'' @ fid] \<and>
           fs ?w' ?out = Some (File (Bytes (concat chunks)))"
    using mk nd nf nm api
    by (cases "m ?out")
       (auto simp: download_file_body_def fetch_file_def world_ops write_file_def
             split: node.splits)
  from 1 2 body_sleeps[of e pid fid fname ident md psd w] show ?thesis
    by (intro that[of ?w']) simp_all
qed

lemma download_file_third_attempt:
  assumes mk: "mkdir_exist_ok e (path_join psd ident) (fs w) = Inr m"
    and nd: "m (path_join (path_join psd ident) fname) \<noteq> Some Dir"
    and nf: "\<not> os_fault e (path_join (path_join psd ident) fname)"
    and nm: "\<forall>c. m (path_join (path_join psd ident) fname) = Some (File c) \<longrightarrow> md5 e c \<noteq> md"
    and api: "data_api w = r1 # r2 # Stream chunks False # rest"
    and t1: "transient e md r1" and t2: "transient e md r2"
  shows "fst (download_file e pid fid fname ident md psd w) = (Inr (), 3) \<and>
         fs (snd (download_file e pid fid fname ident md psd w))
           (path_join (path_join psd ident) fname) = Some (File (Bytes (concat chunks))) \<and>
         requests (snd (download_file e pid fid fname ident md psd w)) =
           requests w @ replicate 3 (GDC_API_ENDPOINT @ ''/data/'' @ fid) \<and>
         data_api (snd (download_file e pid fid fname ident md psd w)) = rest"
proof -
  let ?body = "download_file_body e pid fid fname ident md psd"
  let ?wait = "wait_exponential 1 4 10"
  let ?url = "GDC_API_ENDPOINT @ ''/data/'' @ fid"
  obtain w1 where b1: "?body w = (Inl RequestException, w1)"
    and a1: "data_api w1 = r2 # Stream chunks False # rest"
    and q1: "requests w1 = requests w @ [?url]"
    and mk1: "mkdir_exist_ok e (path_join psd ident) (fs w1) = Inr (fs w1)"
    and nd1: "fs w1 (path_join (path_join psd ident) fname) \<noteq> Some Dir"
    and nm1: "\<forall>c. fs w1 (path_join (path_join psd ident) fname) = Some (File c) \<longrightarrow> md5 e c \<noteq> md"
    by (rule body_failed_attempt[OF mk nd nf nm api t1, of pid fid])
  let ?w1 = "sleep (?wait 1) (log_event WARNING (Retrying 1) w1)"
  have f1: "fs ?w1 = fs w1" "data_api ?w1 = data_api w1" "requests ?w1 = requests w1"
    by (simp_all add: world_ops)
  obtain w2 where b2: "?body ?w1 = (Inl RequestException, w2)"
    and a2: "data_api w2 = Stream chunks False # rest"
    and q2: "requests w2 = requests ?w1 @ [?url]"
    and mk2: "mkdir_exist_ok e (path_join psd ident) (fs w2) = Inr (fs w2)"
    and nd2: "fs w2 (path_join (path_join psd ident) fname) \<noteq> Some Dir"
    and nm2: "\<forall>c. fs w2 (path_join (path_join psd ident) fname) = Some (File c) \<longrightarrow> md5 e c \<noteq> md"
    using body_failed_attempt[where w="?w1" and m="fs w1" and pid=pid and fid=fid and r=r2
        and rs="Stream chunks False # rest" and e=e and psd=psd and ident=ident and fname=fname and md=md]
      mk1 nd1 nf nm1 a1 t2 f1
    by auto
  let ?w2 = "sleep (?wait 2) (log_event WARNING (Retrying 2) w2)"
  have f2: "fs ?w2 = fs w2" "data_api ?w2 = data_api w2" "requests ?w2 = requests w2"
    by (simp_all add: world_ops)
  obtain w3 where b3: "?body ?w2 = (Inr (), w3)"
    and a3: "data_api w3 = rest"
    and q3: "requests w3 = requests ?w2 @ [?url]"
    and c3: "fs w3 (path_join (path_join psd ident) fname) = Some (File (Bytes (concat chunks)))"
    using body_successful_attempt[where w="?w2" and m="fs w2" and pid=pid and fid=fid
        and rs=rest and e=e and psd=psd and ident=ident and fname=fname and md=md and chunks=chunks]
      mk2 nd2 nf nm2 a2 f2
    by auto
  have "download_file e pid fid fname ident md psd w = retry_call 3 ?wait ?body 2 ?w1"
    unfolding download_file_def
    using retry_call_again[where fn="?body" and w=w and n=1 and stop=3 and wait="?wait", OF b1]
    by (simp add: numeral_2_eq_2)
  also have "\<dots> = retry_call 3 ?wait ?body 3 ?w2"
    using retry_call_again[where fn="?body" and w="?w1" and n=2 and stop=3 and wait="?wait", OF b2]
    by (simp add: numeral_3_eq_3)
  also have "\<dots> = ((Inr (), 3), w3)"
    using retry_call_success[where fn="?body" and w="?w2", OF b3] by simp
  finally have "download_file e pid fid fname ident md psd w = ((Inr (), 3), w3)" .
  with a3 q3 c3 q2 q1 f1 f2 show ?thesis
    by (simp add: numeral_3_eq_3)
qed

text \<open>
  C3.  \<open>download_file\<close> makes between one and three attempts and at most one request in
  each.  The wait after the failed attempt \<open>k\<close> is that of the exponential strategy
  \<open>wait_exponential(multiplier=1, min=4, max=10)\<close>, that is \<open>multiplier * 2 ** (k - 1)\<close>
  brought into the range from \<open>min\<close> to \<open>max\<close>: 4, 4, 4, 8, 10 for the attempts 1 to 5,
  never less than 4 or more than 10; of these, the three attempts of \<open>download_file\<close>
  reach the first two, so it waits 4 time units between two attempts.  A second attempt
  is made only after a \<open>RequestException\<close>; \<open>RetryError\<close> is raised
  only after the third attempt; an exception of any other type, raised by whichever
  attempt, leaves the retry loop at once with that exception and the state of that
  attempt.  When the data endpoint fails twice with a transient error and then answers,
  and the target is writable and not already verified, exactly three attempts and three
  requests are made and the target ends up holding the bytes of the third answer.
\<close>

theorem download_file_retry_policy:
  "1 \<le> snd (fst (download_file e pid fid fname ident md psd w)) \<and>
   snd (fst (download_file e pid fid fname ident md psd w)) \<le> 3 \<and>
   sleeps (snd (download_file e pid fid fname ident md psd w)) =
     sleeps w @ replicate (snd (fst (download_file e pid fid fname ident md psd w)) - 1) 4 \<and>
   sleeps (snd (download_file e pid fid fname ident md psd w)) =
     sleeps w @
     map (\<lambda>k. max 4 (min (1 * 2 ^ (k - 1)) 10))
       [1..<snd (fst (download_file e pid fid fname ident md psd w))] \<and>
   (\<forall>k. 4 \<le> wait_exponential 1 4 10 k \<and> wait_exponential 1 4 10 k \<le> 10) \<and>
   (\<forall>k. wait_exponential 1 4 10 k = max 4 (min (1 * 2 ^ (k - 1)) 10)) \<and>
   (\<forall>multiplier lo hi k.
      wait_exponential multiplier lo hi k = max lo (min (multiplier * 2 ^ (k - 1)) hi)) \<and>
   map (wait_exponential 1 4 10) [1, 2, 3, 4, 5] = [4, 4, 4, 8, 10] \<and>
   length (requests (snd (download_file e pid fid fname ident md psd w))) \<le>
     length (requests w) + snd (fst (download_file e pid fid fname ident md psd w)) \<and>
   (1 < snd (fst (download_file e pid fid fname ident md psd w)) \<longrightarrow>
      fst (download_file_body e pid fid fname ident md psd w) = Inl RequestException) \<and>
   (fst (fst (download_file e pid fid fname ident md psd w)) = Inl RetryError \<longrightarrow>
      snd (fst (download_file e pid fid fname ident md psd w)) = 3) \<and>
   (\<forall>err w1. download_file_body e pid fid fname ident md psd w = (Inl err, w1) \<longrightarrow>
      err \<noteq> RequestException \<longrightarrow>
      download_file e pid fid fname ident md psd w = ((Inl err, 1), w1)) \<and>
   (\<forall>n w' err w1. download_file_body e pid fid fname ident md psd w' = (Inl err, w1) \<longrightarrow>
      err \<noteq> RequestException \<longrightarrow>
      retry_call 3 (wait_exponential 1 4 10) (download_file_body e pid fid fname ident md psd) n w' =
        ((Inl err, n), w1)) \<and>
   (\<forall>m r1 r2 chunks rest.
      mkdir_exist_ok e (path_join psd ident) (fs w) = Inr m \<longrightarrow>
      m (path_join (path_join psd ident) fname) \<noteq> Some Dir \<longrightarrow>
      \<not> os_fault e (path_join (path_join psd ident) fname) \<longrightarrow>
      (\<forall>c. m (path_join (path_join psd ident) fname) = Some (File c) \<longrightarrow> md5 e c \<noteq> md) \<longrightarrow>
      data_api w = r1 # r2 # Stream chunks False # rest \<longrightarrow>
      transient e md r1 \<longrightarrow> transient e md r2 \<longrightarrow>
        fst (download_file e pid fid fname ident md psd w) = (Inr (), 3) \<and>
        fs (snd (download_file e pid fid fname ident md psd w))
          (path_join (path_join psd ident) fname) = Some (File (Bytes (concat chunks))) \<and>
        sleeps (snd (download_file e pid fid fname ident md psd w)) = sleeps w @ [4, 4] \<and>
        requests (snd (download_file e pid fid fname ident md psd w)) =
          requests w @ replicate 3 (GDC_API_ENDPOINT @ ''/data/'' @ fid) \<and>
        data_api (snd (download_file e pid fid fname ident md psd w)) = rest)"
proof -
  let ?body = "download_file_body e pid fid fname ident md psd"
  let ?wait = "wait_exponential 1 4 10"
  let ?r = "download_file e pid fid fname ident md psd w"
  have r: "?r = retry_call 3 ?wait ?body 1 w"
    by (simp add: download_file_def)
  from retry_call_attempts[of 1 3 ?wait ?body w]
  have att: "1 \<le> snd (fst ?r)" "snd (fst ?r) \<le> 3"
    by (simp_all add: r)
  have waits: "map ?wait [1..<snd (fst ?r)] = replicate (snd (fst ?r) - 1) 4"
  proof -
    from att consider "snd (fst ?r) = 1" | "snd (fst ?r) = 2" | "snd (fst ?r) = 3"
      by linarith
    then show ?thesis
    proof cases
      case 1 then show ?thesis by simp
    next
      case 2 then show ?thesis by (simp add: upt_conv_Cons wait_exponential_def)
    next
      case 3 then show ?thesis
        by (simp add: upt_conv_Cons wait_exponential_def numeral_2_eq_2)
    qed
  qed
  have sl: "sleeps (snd ?r) = sleeps w @ replicate (snd (fst ?r) - 1) 4"
    using retry_call_sleeps[of ?body 3 ?wait 1 w] body_sleeps[of e pid fid fname ident md psd]
      waits
    by (simp add: r)
  have rq: "length (requests (snd ?r)) \<le> length (requests w) + snd (fst ?r)"
    using retry_call_requests[of ?body 3 ?wait 1 w]
      body_requests[of e pid fid fname ident md psd]
    by (simp add: r)
  have first: "1 < snd (fst ?r) \<longrightarrow> fst (?body w) = Inl RequestException"
    using retry_call_first_attempt[of 1 3 ?wait ?body w] by (simp add: r)
  have rerr: "fst (fst ?r) = Inl RetryError \<longrightarrow> snd (fst ?r) = 3"
    using retry_call_retry_error[of 3 ?wait ?body 1 w]
      body_error[of e pid fid fname ident md psd] att(2)
    by (auto simp: r)
  have fatal1: "\<forall>err w1. ?body w = (Inl err, w1) \<longrightarrow> err \<noteq> RequestException \<longrightarrow>
      ?r = ((Inl err, 1), w1)"
    using retry_call_fatal[where fn="?body" and w=w] by (simp add: r)
  have fataln: "\<forall>n w' err w1. ?body w' = (Inl err, w1) \<longrightarrow> err \<noteq> RequestException \<longrightarrow>
      retry_call 3 ?wait ?body n w' = ((Inl err, n), w1)"
    using retry_call_fatal[where fn="?body"] by blast
  have scen: "\<forall>m r1 r2 chunks rest.
      mkdir_exist_ok e (path_join psd ident) (fs w) = Inr m \<longrightarrow>
      m (path_join (path_join psd ident) fname) \<noteq> Some Dir \<longrightarrow>
      \<not> os_fault e (path_join (path_join psd ident) fname) \<longrightarrow>
      (\<forall>c. m (path_join (path_join psd ident) fname) = Some (File c) \<longrightarrow> md5 e c \<noteq> md) \<longrightarrow>
      data_api w = r1 # r2 # Stream chunks False # rest \<longrightarrow>
      transient e md r1 \<longrightarrow> transient e md r2 \<longrightarrow>
        fst ?r = (Inr (), 3) \<and>
        fs (snd ?r) (path_join (path_join psd ident) fname) = Some (File (Bytes (concat chunks))) \<and>
        sleeps (snd ?r) = sleeps w @ [4, 4] \<and>
        requests (snd ?r) = requests w @ replicate 3 (GDC_API_ENDPOINT @ ''/data/'' @ fid) \<and>
        data_api (snd ?r) = rest"
  proof (intro allI impI)
    fix m r1 r2 chunks rest
    assume h: "mkdir_exist_ok e (path_join psd ident) (fs w) = Inr m"
      "m (path_join (path_join psd ident) fname) \<noteq> Some Dir"
      "\<not> os_fault e (path_join (path_join psd ident) fname)"
      "\<forall>c. m (path_join (path_join psd ident) fname) = Some (File c) \<longrightarrow> md5 e c \<noteq> md"
      "data_api w = r1 # r2 # Stream chunks False # rest"
      "transient e md r1" "transient e md r2"
    note third = download_file_third_attempt[OF h, of pid fid]
    from third have "snd (fst ?r) = 3" by simp
    with sl have "sleeps (snd ?r) = sleeps w @ [4, 4]"
      by (simp add: numeral_2_eq_2)
    with third show "fst ?r = (Inr (), 3) \<and>
        fs (snd ?r) (path_join (path_join psd ident) fname) = Some (File (Bytes (concat chunks))) \<and>
        sleeps (snd ?r) = sleeps w @ [4, 4] \<and>
        requests (snd ?r) = requests w @ replicate 3 (GDC_API_ENDPOINT @ ''/data/'' @ fid) \<and>
        data_api (snd ?r) = rest"
      by simp
  qed
  have bounds: "\<forall>k. 4 \<le> wait_exponential 1 4 10 k \<and> wait_exponential 1 4 10 k \<le> 10"
    using wait_exponential_bounds by blast
  have sched: "\<forall>k. wait_exponential 1 4 10 k = max 4 (min (1 * 2 ^ (k - 1)) 10)"
    by (simp add: wait_exponential_def)
  have gen: "\<forall>multiplier lo hi k.
      wait_exponential multiplier lo hi k = max lo (min (multiplier * 2 ^ (k - 1)) hi)"
    by (simp add: wait_exponential_def)
  have vals: "map (wait_exponential 1 4 10) [1, 2, 3, 4, 5] = [4, 4, 4, 8, 10]"
    by (simp add: wait_exponential_def)
  have "map ?wait [1..<snd (fst ?r)] =
      map (\<lambda>k. max 4 (min (1 * 2 ^ (k - 1)) 10)) [1..<snd (fst ?r)]"
    using sched by simp
  then have sl2: "sleeps (snd ?r) =
      sleeps w @ map (\<lambda>k. max 4 (min (1 * 2 ^ (k - 1)) 10)) [1..<snd (fst ?r)]"
    using retry_call_sleeps[of ?body 3 ?wait 1 w] body_sleeps[of e pid fid fname ident md psd]
    by (simp add: r)
  show ?thesis
    by (intro conjI; (rule att sl sl2 bounds sched gen vals rq first rerr fatal1 fataln scen))
qed

theorem download_file_retry_policy_witness:
  "fst (download_file sample_env ''TCGA-BRCA'' ''f-1'' ''a.svs'' ''P1'' ''slide''
          ''tcga_data/slides/TCGA-BRCA'' flaky_world) = (Inr (), 3) \<and>
   fs (snd (download_file sample_env ''TCGA-BRCA'' ''f-1'' ''a.svs'' ''P1'' ''slide''
          ''tcga_data/slides/TCGA-BRCA'' flaky_world))
      ''tcga_data/slides/TCGA-BRCA/P1/a.svs'' = Some (File (Bytes ''slide'')) \<and>
   sleeps (snd (download_file sample_env ''TCGA-BRCA'' ''f-1'' ''a.svs'' ''P1'' ''slide''
          ''tcga_data/slides/TCGA-BRCA'' flaky_world)) = [4, 4] \<and>
   length (requests (snd (download_file sample_env ''TCGA-BRCA'' ''f-1'' ''a.svs'' ''P1'' ''slide''
          ''tcga_data/slides/TCGA-BRCA'' flaky_world))) = 3 \<and>
   map (wait_exponential 1 4 10) [1, 2, 3, 4, 5] = [4, 4, 4, 8, 10] \<and>
   transient sample_env ''slide'' DataConnectionFailure \<and>
   transient sample_env ''slide'' (Stream [''sl''] True) \<and>
   OSError \<noteq> RequestException \<and>
   fst (download_file read_only_env ''TCGA-BRCA'' ''f-1'' ''a.svs'' ''P1'' ''slide''
          ''tcga_data/slides/TCGA-BRCA'' steady_world) =
     (Inl OSError, 1)"
proof -
  let ?psd = "''tcga_data/slides/TCGA-BRCA''"
  let ?m = "(fs flaky_world)(''tcga_data/slides/TCGA-BRCA/P1'' \<mapsto> Dir)"
  note pol = download_file_retry_policy [of sample_env "''TCGA-BRCA''" "''f-1''" "''a.svs''" "''P1''" "''slide''" ?psd flaky_world]
  have scen: "\<forall>m r1 r2 chunks rest.
      mkdir_exist_ok sample_env (path_join ?psd ''P1'') (fs flaky_world) = Inr m \<longrightarrow>
      m (path_join (path_join ?psd ''P1'') ''a.svs'') \<noteq> Some Dir \<longrightarrow>
      \<not> os_fault sample_env (path_join (path_join ?psd ''P1'') ''a.svs'') \<longrightarrow>
      (\<forall>c. m (path_join (path_join ?psd ''P1'') ''a.svs'') = Some (File c) \<longrightarrow>
         md5 sample_env c \<noteq> ''slide'') \<longrightarrow>
      data_api flaky_world = r1 # r2 # Stream chunks False # rest \<longrightarrow>
      transient sample_env ''slide'' r1 \<longrightarrow> transient sample_env ''slide'' r2 \<longrightarrow>
        fst (download_file sample_env ''TCGA-BRCA'' ''f-1'' ''a.svs'' ''P1'' ''slide'' ?psd flaky_world) = (Inr (), 3) \<and>
        fs (snd (download_file sample_env ''TCGA-BRCA'' ''f-1'' ''a.svs'' ''P1'' ''slide'' ?psd flaky_world))
          (path_join (path_join ?psd ''P1'') ''a.svs'') = Some (File (Bytes (concat chunks))) \<and>
        sleeps (snd (download_file sample_env ''TCGA-BRCA'' ''f-1'' ''a.svs'' ''P1'' ''slide'' ?psd flaky_world)) =
          sleeps flaky_world @ [4, 4] \<and>
        requests (snd (download_file sample_env ''TCGA-BRCA'' ''f-1'' ''a.svs'' ''P1'' ''slide'' ?psd flaky_world)) =
          requests flaky_world @ replicate 3 (GDC_API_ENDPOINT @ ''/data/'' @ ''f-1'') \<and>
        data_api (snd (download_file sample_env ''TCGA-BRCA'' ''f-1'' ''a.svs'' ''P1'' ''slide'' ?psd flaky_world)) = rest"
    by (rule pol[THEN conjunct2, THEN conjunct2, THEN conjunct2, THEN conjunct2, THEN conjunct2, THEN conjunct2, THEN conjunct2, THEN conjunct2, THEN conjunct2, THEN conjunct2, THEN conjunct2, THEN conjunct2, THEN conjunct2])
  have tr: "transient sample_env ''slide'' DataConnectionFailure"
    "transient sample_env ''slide'' (Stream [''sl''] True)"
    by (simp_all add: transient_def sample_env_def)
  have a: "fst (download_file sample_env ''TCGA-BRCA'' ''f-1'' ''a.svs'' ''P1'' ''slide'' ?psd flaky_world) = (Inr (), 3) \<and>
        fs (snd (download_file sample_env ''TCGA-BRCA'' ''f-1'' ''a.svs'' ''P1'' ''slide'' ?psd flaky_world))
          ''tcga_data/slides/TCGA-BRCA/P1/a.svs'' = Some (File (Bytes ''slide'')) \<and>
        sleeps (snd (download_file sample_env ''TCGA-BRCA'' ''f-1'' ''a.svs'' ''P1'' ''slide'' ?psd flaky_world)) = [4, 4] \<and>
        length (requests (snd (download_file sample_env ''TCGA-BRCA'' ''f-1'' ''a.svs'' ''P1'' ''slide'' ?psd flaky_world))) = 3"
    using scen[rule_format, of ?m DataConnectionFailure "Stream [''sl''] True" "[''sl'', ''ide'']" "[]"] tr
    by (simp add: flaky_world_def empty_world_def sample_env_def path_join_def mkdir_exist_ok_def)
  let ?w = "steady_world"
  note pol2 = download_file_retry_policy [of read_only_env "''TCGA-BRCA''" "''f-1''" "''a.svs''" "''P1''" "''slide''" ?psd ?w]
  have body: "download_file_body read_only_env ''TCGA-BRCA'' ''f-1'' ''a.svs'' ''P1'' ''slide'' ?psd ?w =
      (Inl OSError, snd (download_file_body read_only_env ''TCGA-BRCA'' ''f-1'' ''a.svs'' ''P1'' ''slide'' ?psd ?w))"
    by (simp add: download_file_body_def fetch_file_def world_ops write_file_def mkdir_exist_ok_def
          path_join_def steady_world_def flaky_world_def empty_world_def read_only_env_def
          sample_env_def)
  have b: "fst (download_file read_only_env ''TCGA-BRCA'' ''f-1'' ''a.svs'' ''P1'' ''slide'' ?psd ?w) =
      (Inl OSError, 1)"
    using pol2[THEN conjunct2, THEN conjunct2, THEN conjunct2, THEN conjunct2, THEN conjunct2, THEN conjunct2, THEN conjunct2, THEN conjunct2, THEN conjunct2, THEN conjunct2, THEN conjunct2, THEN conjunct1, rule_format, OF body] by simp
  note vals = pol[THEN conjunct2, THEN conjunct2, THEN conjunct2, THEN conjunct2, THEN conjunct2, THEN conjunct2, THEN conjunct2, THEN conjunct1]
  from a vals tr b show ?thesis by simp
qed

section \<open>Properties of the summary reporter\<close>

text \<open>
  The project summary depends on the environment only through the iteration order of
  the set of formats and through the faults of the file system; the summary of all
  projects does not depend on that order at all.
\<close>

lemma generate_project_summary_csv_set_order:
  "set_iter e1 (map format_of (all_files g)) = set_iter e2 (map format_of (all_files g)) \<Longrightarrow>
   os_fault e1 = os_fault e2 \<Longrightarrow>
     generate_project_summary_csv e1 pid g w = generate_project_summary_csv e2 pid g w"
  by (simp add: generate_project_summary_csv_def project_summary_rows_def summarize_def
        write_file_def)

lemma generate_all_projects_summary_csv_env:
  "os_fault e1 = os_fault e2 \<Longrightarrow>
     generate_all_projects_summary_csv e1 summaries w =
     generate_all_projects_summary_csv e2 summaries w"
  by (simp add: generate_all_projects_summary_csv_def write_file_def)

text \<open>
  C8.  The claim: two runs of \<open>generate_project_summary_csv\<close> on the same project and the
  same patient group produce identical rows, the formats field included.  The field is
  \<open>", ".join(formats)\<close> for a \<open>set\<close> of strings, whose iteration order is not fixed by the
  input: under two orders that both enumerate the set without repetition, and with all
  else equal, the same group with the formats \<open>SVS\<close> and \<open>TIFF\<close> gives \<open>SVS, TIFF\<close> in one
  run and \<open>TIFF, SVS\<close> in the other, so the rows written and the summary returned differ.
\<close>

theorem summary_formats_depend_on_set_order:
  "(\<forall>xs. distinct (set_iter sample_env xs) \<and> set (set_iter sample_env xs) = set xs) \<and>
   (\<forall>xs. distinct (set_iter reversed_env xs) \<and> set (set_iter reversed_env xs) = set xs) \<and>
   md5 reversed_env = md5 sample_env \<and> os_fault reversed_env = os_fault sample_env \<and>
   file_formats (summarize sample_env ''TCGA-BRCA'' two_formats) = ''SVS, TIFF'' \<and>
   file_formats (summarize reversed_env ''TCGA-BRCA'' two_formats) = ''TIFF, SVS'' \<and>
   project_summary_rows sample_env ''TCGA-BRCA'' two_formats \<noteq>
     project_summary_rows reversed_env ''TCGA-BRCA'' two_formats \<and>
   generate_project_summary_csv sample_env ''TCGA-BRCA'' two_formats empty_world \<noteq>
     generate_project_summary_csv reversed_env ''TCGA-BRCA'' two_formats empty_world"
proof -
  have v: "\<forall>xs. distinct (set_iter sample_env xs) \<and> set (set_iter sample_env xs) = set xs"
    "\<forall>xs. distinct (set_iter reversed_env xs) \<and> set (set_iter reversed_env xs) = set xs"
    "md5 reversed_env = md5 sample_env" "os_fault reversed_env = os_fault sample_env"
    by (simp_all add: sample_env_def reversed_env_def)
  have f1: "file_formats (summarize sample_env ''TCGA-BRCA'' two_formats) = ''SVS, TIFF''"
    by (simp add: summarize_def all_files_def format_of_def two_formats_def sample_env_def
          tissue_record_def diagnostic_record_def)
  have f2: "file_formats (summarize reversed_env ''TCGA-BRCA'' two_formats) = ''TIFF, SVS''"
    by (simp add: summarize_def all_files_def format_of_def two_formats_def sample_env_def
          reversed_env_def tissue_record_def diagnostic_record_def)
  have rows: "project_summary_rows sample_env ''TCGA-BRCA'' two_formats \<noteq>
     project_summary_rows reversed_env ''TCGA-BRCA'' two_formats"
  proof
    assume "project_summary_rows sample_env ''TCGA-BRCA'' two_formats =
      project_summary_rows reversed_env ''TCGA-BRCA'' two_formats"
    then have "summary_row (summarize sample_env ''TCGA-BRCA'' two_formats) =
      summary_row (summarize reversed_env ''TCGA-BRCA'' two_formats)"
      by (simp add: project_summary_rows_def)
    then have "file_formats (summarize sample_env ''TCGA-BRCA'' two_formats) =
      file_formats (summarize reversed_env ''TCGA-BRCA'' two_formats)"
      by (simp add: summary_row_def)
    with f1 f2 show False by simp
  qed
  have gen: "generate_project_summary_csv sample_env ''TCGA-BRCA'' two_formats empty_world \<noteq>
     generate_project_summary_csv reversed_env ''TCGA-BRCA'' two_formats empty_world"
  proof
    assume "generate_project_summary_csv sample_env ''TCGA-BRCA'' two_formats empty_world =
      generate_project_summary_csv reversed_env ''TCGA-BRCA'' two_formats empty_world"
    then have "summarize sample_env ''TCGA-BRCA'' two_formats =
      summarize reversed_env ''TCGA-BRCA'' two_formats"
      by (simp add: generate_project_summary_csv_def write_file_def empty_world_def
            sample_env_def reversed_env_def)
    with f1 f2 show False by simp
  qed
  from v f1 f2 rows gen show ?thesis by simp
qed

section \<open>Properties of the orchestrator\<close>

subsection \<open>The patient identifiers\<close>


lemma get_all_projects_ok:
  "projects_api w = Json (Some all_projects) # rest \<Longrightarrow>
     fst (get_all_projects w) = Inr all_projects"
  by (simp add: get_all_projects_def get_projects_def log_event_def)








subsection \<open>What the steps of a project log\<close>

lemma processing_events_append [simp]:
  "processing_events (xs @ ys) = processing_events xs @ processing_events ys"
  by (simp add: processing_events_def)

lemma failed_projects_append [simp]:
  "failed_projects (xs @ ys) = failed_projects xs @ failed_projects ys"
  by (simp add: failed_projects_def)

lemma quiet_step_refl: "logs w' = logs w \<Longrightarrow> quiet_step w w'"
  by (simp add: quiet_step_def processing_events_def failed_projects_def)

lemma quiet_step_trans: "quiet_step w w1 \<Longrightarrow> quiet_step w1 w2 \<Longrightarrow> quiet_step w w2"
  by (auto simp: quiet_step_def)

lemma quiet_step_log:
  "processing_events [(lvl, m)] = [] \<Longrightarrow> failed_projects [(lvl, m)] = [] \<Longrightarrow>
     quiet_step w w1 \<Longrightarrow> quiet_step w (log_event lvl m w1)"
  by (auto simp: quiet_step_def log_event_def)

lemma quiet_step_sleep: "quiet_step w w1 \<Longrightarrow> quiet_step w (sleep t w1)"
  by (auto simp: quiet_step_def sleep_def)

lemmas quiet_events = processing_events_def failed_projects_def

lemma fetch_file_quiet: "quiet_step w (snd (fetch_file e pid fid fname ident out w))"
  by (auto simp: fetch_file_def get_data_def write_file_def quiet_events log_event_def
             quiet_step_def
           split: list.splits data_response.splits sum.splits if_splits)

lemma download_file_body_quiet:
  "quiet_step w (snd (download_file_body e pid fid fname ident md psd w))"
proof -
  have a: "\<And>m lvl msg. processing_events [(lvl, msg)] = [] \<Longrightarrow> failed_projects [(lvl, msg)] = [] \<Longrightarrow>
      quiet_step w (snd (fetch_file e pid fid fname ident
         (path_join (path_join psd ident) fname) (log_event lvl msg (w\<lparr>fs := m\<rparr>))))"
    by (rule quiet_step_trans[OF _ fetch_file_quiet]) (simp add: quiet_step_def log_event_def)
  have b: "\<And>m. quiet_step w (snd (fetch_file e pid fid fname ident
         (path_join (path_join psd ident) fname) (w\<lparr>fs := m\<rparr>)))"
    by (rule quiet_step_trans[OF _ fetch_file_quiet]) (simp add: quiet_step_refl)
  have c: "\<And>m. quiet_step w (log_event INFO (Skipping fname pid ident) (w\<lparr>fs := m\<rparr>))"
    by (simp add: quiet_step_def log_event_def quiet_events)
  have d: "\<And>m. quiet_step w (w\<lparr>fs := m\<rparr>)"
    by (simp add: quiet_step_refl)
  show ?thesis
    by (auto simp: download_file_body_def a b c d quiet_events quiet_step_refl
             split: sum.splits option.splits node.splits)
qed

lemma retry_call_quiet:
  assumes "\<And>w. quiet_step w (snd (fn w))"
  shows "quiet_step w (snd (retry_call stop wait fn n w))"
  using assms
proof (induction stop wait fn n w rule: retry_call.induct)
  case (1 stop wait fn n w)
  note q = "1.prems"
  show ?case
  proof (cases rule: retry_call_cases[where fn=fn and w=w and stop=stop and n=n])
    case (success v w1)
    from q[of w] have "quiet_step w w1" by (simp add: success)
    then show ?thesis by (simp add: retry_call_success[where fn=fn and w=w, OF success])
  next
    case (fatal err w1)
    from q[of w] have "quiet_step w w1" by (simp add: fatal)
    then show ?thesis by (simp add: retry_call_fatal[where fn=fn and w=w, OF fatal])
  next
    case (exhausted w1)
    from q[of w] have "quiet_step w w1" by (simp add: exhausted)
    then show ?thesis by (simp add: retry_call_exhausted[where fn=fn and w=w, OF exhausted])
  next
    case (again w1)
    note RA = retry_call_again[where fn=fn and w=w, OF again]
    let ?w2 = "sleep (wait n) (log_event WARNING (Retrying n) w1)"
    from q[of w] have "quiet_step w w1" by (simp add: again)
    then have "quiet_step w ?w2"
      by (intro quiet_step_sleep quiet_step_log) (simp_all add: quiet_events)
    moreover from "1.IH"[OF again(1)[symmetric] refl] again(2) q
    have "quiet_step ?w2 (snd (retry_call stop wait fn (Suc n) ?w2))" by simp
    ultimately show ?thesis by (simp add: RA quiet_step_trans)
  qed
qed

lemma download_file_quiet:
  "quiet_step w (snd (download_file e pid fid fname ident md psd w))"
  unfolding download_file_def by (rule retry_call_quiet) (rule download_file_body_quiet)

lemma download_slides_quiet:
  "quiet_step w (download_slides e dt pid ident sd slides w)"
proof (induction slides arbitrary: w)
  case Nil
  then show ?case by (simp add: quiet_step_refl)
next
  case (Cons file0 slides)
  show ?case
  proof (cases "(dt = ''tissue'' \<and> experimental_strategy file0 \<noteq> Some ''Tissue Slide'') \<or>
         (dt = ''diagnostic'' \<and> experimental_strategy file0 \<noteq> Some ''Diagnostic Slide'')")
    case True
    with Cons.IH[of w] show ?thesis by simp
  next
    case False
    show ?thesis
    proof (cases sd)
      case None
      have "quiet_step w (log_event ERROR (Failed_to_download (file_name file0) pid ident) w)"
        by (intro quiet_step_log quiet_step_refl) (simp_all add: quiet_events)
      from quiet_step_trans[OF this Cons.IH] False None show ?thesis by auto
    next
      case (Some d)
      obtain r n w1 where d: "download_file e pid (file_id file0) (file_name file0) ident
          (md5sum file0) d w = ((r, n), w1)"
        by (metis prod.exhaust)
      from download_file_quiet[of w e pid "file_id file0" "file_name file0" ident "md5sum file0" d]
      have q1: "quiet_step w w1" by (simp add: d)
      show ?thesis
      proof (cases r)
        case (Inl err)
        from q1 have "quiet_step w (log_event ERROR (Failed_to_download (file_name file0) pid ident) w1)"
          by (intro quiet_step_log) (simp_all add: quiet_events)
        from quiet_step_trans[OF this Cons.IH] False Some d Inl show ?thesis by auto
      next
        case (Inr v)
        from quiet_step_trans[OF q1 Cons.IH] False Some d Inr show ?thesis by auto
      qed
    qed
  qed
qed

lemma save_metadata_quiet: "quiet_step w (snd (save_metadata e pid ident slides md w))"
  by (auto simp: save_metadata_def write_file_def quiet_events quiet_step_def log_event_def)

lemma patients_loop_quiet:
  "quiet_step w (snd (patients_loop e dt pid md sd g w))"
proof (induction g arbitrary: w)
  case Nil
  then show ?case by (simp add: quiet_step_refl)
next
  case (Cons item g)
  obtain ident slides where item: "item = (ident, slides)" by (cases item)
  obtain r w1 where s: "save_metadata e pid ident slides md w = (r, w1)"
    by (cases "save_metadata e pid ident slides md w")
  from save_metadata_quiet[of w e pid ident slides md] have q1: "quiet_step w w1"
    by (simp add: s)
  show ?case
  proof (cases r)
    case (Inl err)
    with item s q1 show ?thesis by simp
  next
    case (Inr v)
    let ?w2 = "if dt \<noteq> ''none'' then download_slides e dt pid ident sd slides w1 else w1"
    have "quiet_step w1 ?w2"
      by (simp add: download_slides_quiet quiet_step_refl)
    with q1 have "quiet_step w ?w2" by (rule quiet_step_trans)
    from quiet_step_trans[OF this Cons.IH[of ?w2]] item s Inr show ?thesis by simp
  qed
qed

lemma get_manifest_quiet: "quiet_step w (snd (get_manifest pid w))"
  by (auto simp: get_manifest_def get_files_def log_event_def quiet_step_def quiet_events
           split: list.splits api_response.splits)

lemma generate_project_summary_csv_quiet:
  "quiet_step w (snd (generate_project_summary_csv e pid g w))"
  by (auto simp: generate_project_summary_csv_def write_file_def quiet_events quiet_step_def
             log_event_def)

lemma generate_project_summary_csv_project:
  "generate_project_summary_csv e pid g w = (Inr s, w') \<Longrightarrow> project s = pid"
  by (auto simp: generate_project_summary_csv_def summarize_def split: sum.splits)

lemma process_project_quiet:
  "quiet_step w (snd (process_project e dt pids pid md sd w))"
proof -
  obtain r w1 where m: "get_manifest pid w = (r, w1)" by (cases "get_manifest pid w")
  from get_manifest_quiet[of w pid] have q1: "quiet_step w w1" by (simp add: m)
  show ?thesis
  proof (cases r)
    case (Inl err)
    with m q1 show ?thesis by (simp add: process_project_def)
  next
    case (Inr manifest)
    show ?thesis
    proof (cases manifest)
      case None
      with Inr m q1 show ?thesis by (simp add: process_project_def)
    next
      case (Some files)
      show ?thesis
      proof (cases "group_by_patient files (if dt \<noteq> ''none'' then dt else ''both'') pids")
        case (Inl err)
        with Some Inr m q1 show ?thesis by (simp add: process_project_def)
      next
        case g: (Inr g)
        let ?w2 = "if g = [] then log_event WARNING (No_matching_slides pid) w1 else w1"
        have q2: "quiet_step w ?w2"
          using q1 by (auto intro!: quiet_step_log simp: quiet_events)
        obtain r3 w3 where p: "patients_loop e dt pid md sd g ?w2 = (r3, w3)"
          by (cases "patients_loop e dt pid md sd g ?w2")
        from patients_loop_quiet[of ?w2 e dt pid md sd g] have "quiet_step ?w2 w3"
          by (simp add: p)
        with q2 have q3: "quiet_step w w3" by (rule quiet_step_trans)
        show ?thesis
        proof (cases r3)
          case (Inl err)
          with Some Inr m g p q3 show ?thesis by (simp add: process_project_def)
        next
          case r3: (Inr v)
          from quiet_step_trans[OF q3 generate_project_summary_csv_quiet[of w3 e pid g]]
          show ?thesis using Some Inr m g p r3 by (simp add: process_project_def)
        qed
      qed
    qed
  qed
qed

lemma process_project_project:
  "process_project e dt pids pid md sd w = (Inr s, w') \<Longrightarrow> project s = pid"
  by (auto simp: process_project_def
           split: prod.splits sum.splits option.splits
           dest: generate_project_summary_csv_project)

lemma mkdir_each_error: "mkdir_each e ps m = Inl err \<Longrightarrow> err = OSError"
  by (induction ps arbitrary: m)
     (auto simp: mkdir_exist_ok_def split: sum.splits option.splits node.splits if_splits)

lemma create_directories_error:
  "create_directories e pid dt w = (Inl err, w') \<Longrightarrow> err = OSError"
  by (auto simp: create_directories_def mkdir_parents_def
           split: sum.splits if_splits dest: mkdir_each_error)

lemma create_directories_logs:
  "logs (snd (create_directories e pid dt w)) = logs w"
  by (auto simp: create_directories_def split: sum.splits)

subsection \<open>The loop over the projects\<close>

lemma projects_loop_step:
  assumes "create_directories e p dt (log_event INFO (Processing p) w) = (Inr dirs, w1)"
  shows "\<exists>acc' w2. projects_loop e dt pids (p # rest) acc w = projects_loop e dt pids rest acc' w2 \<and>
           (acc' = acc \<or> (\<exists>s. acc' = acc @ [s] \<and> project s = p))"
proof -
  obtain md sd where dirs: "dirs = (md, sd)" by (cases dirs)
  obtain r w2 where pp: "process_project e dt pids p md sd w1 = (r, w2)"
    by (cases "process_project e dt pids p md sd w1")
  show ?thesis
  proof (cases r)
    case (Inl err)
    with assms dirs pp show ?thesis by auto
  next
    case (Inr s)
    with pp have "project s = p" by (auto dest: process_project_project)
    with assms dirs pp Inr show ?thesis by auto
  qed
qed

lemma projects_loop_result:
  "projects_loop e dt pids ps acc w = (Inr summaries, w') \<Longrightarrow>
     \<exists>new extra. summaries = acc @ new \<and> logs w' = logs w @ extra \<and>
       processing_events extra = ps \<and>
       mset ps = mset (map project new) + mset (failed_projects extra) \<and>
       subseq (map project new) ps"
proof (induction ps arbitrary: acc w)
  case Nil
  then show ?case by (auto simp: quiet_events)
next
  case (Cons p ps)
  let ?w0 = "log_event INFO (Processing p) w"
  obtain r1 w1 where cd: "create_directories e p dt ?w0 = (r1, w1)"
    by (cases "create_directories e p dt ?w0")
  from Cons.prems cd obtain md sd where r1: "r1 = Inr (md, sd)"
    by (cases r1) auto
  from create_directories_logs[of e p dt ?w0] cd
  have l1: "logs w1 = logs w @ [(INFO, Processing p)]"
    by (simp add: log_event_def)
  obtain r2 w2 where pp: "process_project e dt pids p md sd w1 = (r2, w2)"
    by (cases "process_project e dt pids p md sd w1")
  from process_project_quiet[of w1 e dt pids p md sd] pp
  obtain ex1 where l2: "logs w2 = logs w1 @ ex1" and q1: "processing_events ex1 = []"
    and q2: "failed_projects ex1 = []"
    by (auto simp: quiet_step_def)
  show ?case
  proof (cases r2)
    case (Inl err)
    let ?w3 = "log_event ERROR (Failed_to_process p) w2"
    from Cons.prems cd r1 pp Inl
    have "projects_loop e dt pids ps acc ?w3 = (Inr summaries, w')" by simp
    from Cons.IH[OF this] obtain new extra where
      n: "summaries = acc @ new" and l: "logs w' = logs ?w3 @ extra"
      and pe: "processing_events extra = ps"
      and ms: "mset ps = mset (map project new) + mset (failed_projects extra)"
      and ss: "subseq (map project new) ps"
      by blast
    let ?extra = "[(INFO, Processing p)] @ ex1 @ [(ERROR, Failed_to_process p)] @ extra"
    have "logs w' = logs w @ ?extra"
      using l l1 l2 by (simp add: log_event_def)
    moreover have "processing_events ?extra = p # ps"
      using q1 pe by (simp add: quiet_events)
    moreover have "mset (p # ps) = mset (map project new) + mset (failed_projects ?extra)"
      using q2 ms by (simp add: quiet_events)
    moreover have "subseq (map project new) (p # ps)"
      using ss by (rule list_emb_Cons)
    ultimately show ?thesis using n by blast
  next
    case (Inr s)
    from pp Inr have ps: "project s = p" by (auto dest: process_project_project)
    from Cons.prems cd r1 pp Inr
    have "projects_loop e dt pids ps (acc @ [s]) w2 = (Inr summaries, w')" by simp
    from Cons.IH[OF this] obtain new extra where
      n: "summaries = (acc @ [s]) @ new" and l: "logs w' = logs w2 @ extra"
      and pe: "processing_events extra = ps"
      and ms: "mset ps = mset (map project new) + mset (failed_projects extra)"
      and ss: "subseq (map project new) ps"
      by blast
    let ?extra = "[(INFO, Processing p)] @ ex1 @ extra"
    have "logs w' = logs w @ ?extra"
      using l l1 l2 by simp
    moreover have "processing_events ?extra = p # ps"
      using q1 pe by (simp add: quiet_events)
    moreover have "mset (p # ps) = mset (map project (s # new)) + mset (failed_projects ?extra)"
      using q2 ms ps by (simp add: quiet_events)
    moreover have "subseq (map project (s # new)) (p # ps)"
      using ss ps by simp
    moreover have "summaries = acc @ (s # new)" using n by simp
    ultimately show ?thesis by blast
  qed
qed

lemma projects_loop_error:
  "projects_loop e dt pids ps acc w = (Inl err, w') \<Longrightarrow>
     err = OSError \<and> (\<exists>p \<in> set ps. \<exists>w0. fst (create_directories e p dt w0) = Inl OSError)"
proof (induction ps arbitrary: acc w)
  case Nil
  then show ?case by simp
next
  case (Cons p ps)
  let ?w0 = "log_event INFO (Processing p) w"
  obtain r1 w1 where cd: "create_directories e p dt ?w0 = (r1, w1)"
    by (cases "create_directories e p dt ?w0")
  show ?case
  proof (cases r1)
    case (Inl err1)
    with cd have "err1 = OSError" by (auto dest: create_directories_error)
    moreover from Cons.prems cd Inl have "err = err1" by simp
    moreover from cd Inl have "fst (create_directories e p dt ?w0) = Inl err1" by simp
    ultimately show ?thesis by auto
  next
    case (Inr dirs)
    obtain md sd where dirs: "dirs = (md, sd)" by (cases dirs)
    obtain r2 w2 where pp: "process_project e dt pids p md sd w1 = (r2, w2)"
      by (cases "process_project e dt pids p md sd w1")
    from Cons.prems cd Inr dirs pp obtain acc' w3 where
      "projects_loop e dt pids ps acc' w3 = (Inl err, w')"
      by (cases r2) auto
    from Cons.IH[OF this] show ?thesis by auto
  qed
qed

lemma download_tcga_slides_report:
  assumes dt: "download_type \<in> set [''tissue'', ''diagnostic'', ''both'', ''none'']"
    and api: "projects_api w = Json (Some all_projects) # rest"
    and sel: "select_projects projects all_projects = Inr project_list"
    and ids: "fst (load_patient_ids e patient_ids (snd (get_all_projects w))) = Inr pids"
    and loop: "fst (projects_loop e download_type pids project_list []
                 (snd (load_patient_ids e patient_ids (snd (get_all_projects w))))) = Inr summaries"
    and nf: "\<not> os_fault e (path_join BASE_DIR ''all_tcga_projects_summary.csv'')"
    and nd: "fs (snd (projects_loop e download_type pids project_list []
                 (snd (load_patient_ids e patient_ids (snd (get_all_projects w))))))
               (path_join BASE_DIR ''all_tcga_projects_summary.csv'') \<noteq> Some Dir"
  shows "fst (download_tcga_slides e download_type projects patient_ids w) = Inr () \<and>
         fs (snd (download_tcga_slides e download_type projects patient_ids w))
           (path_join BASE_DIR ''all_tcga_projects_summary.csv'') =
             Some (File (Csv_doc (all_projects_rows summaries)))"
proof -
  obtain w1 where g: "get_all_projects w = (Inr all_projects, w1)"
    using get_all_projects_ok[OF api] by (cases "get_all_projects w") auto
  obtain w2 where l: "load_patient_ids e patient_ids w1 = (Inr pids, w2)"
    using ids g by (cases "load_patient_ids e patient_ids w1") auto
  obtain w3 where p: "projects_loop e download_type pids project_list [] w2 = (Inr summaries, w3)"
    using loop g l by (cases "projects_loop e download_type pids project_list [] w2") auto
  from nd g l p have nd3: "fs w3 (path_join BASE_DIR ''all_tcga_projects_summary.csv'') \<noteq> Some Dir"
    by simp
  from dt g sel l p nf nd3 show ?thesis
    by (simp add: download_tcga_slides_def generate_all_projects_summary_csv_def write_file_def
          log_event_def)
qed

lemmas run_defs =
  download_tcga_slides_def get_all_projects_def get_projects_def get_manifest_def get_files_def
  log_event_def select_projects_def lower_def lower_char_def load_patient_ids_def
  create_directories_def mkdir_parents_def mkdir_exist_ok_def path_join_def
  METADATA_DIR_def SLIDES_DIR_def BASE_DIR_def GDC_API_ENDPOINT_def
  process_project_def generate_all_projects_summary_csv_def write_file_def

lemmas sample_defs =
  catalog_world_def partial_catalog_world_def empty_world_def sample_env_def
  no_metadata_dir_env_def

text \<open>
  C5, as the claim states it: a failure while one project is processed aborts only that
  project, and the aggregate summary is always written.  Here the metadata directory of
  the first of two projects cannot be created: \<open>create_directories\<close> is called before the
  \<open>try\<close> statement, its exception ends the run, the second project is never taken up and
  no aggregate summary is written.
\<close>

theorem directory_failure_aborts_run:
  "fst (download_tcga_slides no_metadata_dir_env ''none'' ''all'' None catalog_world) =
     Inl OSError \<and>
   fs (snd (download_tcga_slides no_metadata_dir_env ''none'' ''all'' None catalog_world))
     ''tcga_data/all_tcga_projects_summary.csv'' = None \<and>
   processing_events
     (logs (snd (download_tcga_slides no_metadata_dir_env ''none'' ''all'' None catalog_world))) =
     [''TCGA-BRCA''] \<and>
   requests (snd (download_tcga_slides no_metadata_dir_env ''none'' ''all'' None catalog_world)) =
     [''https://api.gdc.cancer.gov/projects'']"
  by (simp add: run_defs sample_defs processing_events_def)


lemmas project_defs =
  save_metadata_def generate_project_summary_csv_def project_summary_rows_def summarize_def
  all_files_def count_strategy_def size_of_def format_of_def megabytes_def
  grouping_defs tissue_record_def

lemma partial_catalog_summaries:
  "fst (projects_loop sample_env ''none'' None [''TCGA-BRCA'', ''TCGA-LUAD''] []
          (snd (load_patient_ids sample_env None (snd (get_all_projects partial_catalog_world))))) =
     Inr [\<lparr>project = ''TCGA-LUAD'', total_patients = 1, total_slides = 1, tissue_slides = 1,
           diagnostic_slides = 0, total_size_mb = 1, file_formats = ''SVS''\<rparr>]"
  by (simp add: run_defs sample_defs project_defs)

lemma partial_catalog_report_path:
  "fs (snd (projects_loop sample_env ''none'' None [''TCGA-BRCA'', ''TCGA-LUAD''] []
          (snd (load_patient_ids sample_env None (snd (get_all_projects partial_catalog_world))))))
      (path_join BASE_DIR ''all_tcga_projects_summary.csv'') = None"
  by (simp add: run_defs sample_defs project_defs)

lemma partial_catalog_logs:
  "failed_projects (logs (snd (download_tcga_slides sample_env ''none'' ''all'' None
      partial_catalog_world))) = [''TCGA-BRCA''] \<and>
   processing_events (logs (snd (download_tcga_slides sample_env ''none'' ''all'' None
      partial_catalog_world))) = [''TCGA-BRCA'', ''TCGA-LUAD'']"
  by (simp add: run_defs sample_defs project_defs quiet_events)


text \<open>
  C5, amended.  Once the directories of a project are created, the loop goes on with the
  remaining projects whatever the \<open>try\<close> body of that project does, with the summary of
  the project appended or with the list of summaries unchanged.  When the loop ends
  normally, every selected project has been taken up, in order; the summaries gained are
  those of the projects not logged as failed, each project counted as often as it was
  selected, in the order of the selection.  The loop ends in an exception only when
  \<open>create_directories\<close> raised it, and an exception of \<open>create_directories\<close> ends the
  loop at once.  When the loop ends normally and the aggregate file can
  be opened for writing, the run returns normally and the aggregate file holds the
  header and exactly the rows of the summaries gained.
\<close>

theorem project_failures_are_isolated:
  "(\<forall>dirs w1.
      create_directories e p dt (log_event INFO (Processing p) w) = (Inr dirs, w1) \<longrightarrow>
        (\<exists>acc' w2.
           projects_loop e dt pids (p # rest) acc w = projects_loop e dt pids rest acc' w2 \<and>
           (acc' = acc \<or> (\<exists>s. acc' = acc @ [s] \<and> project s = p)))) \<and>
   (\<forall>summaries w'.
      projects_loop e dt pids ps acc w = (Inr summaries, w') \<longrightarrow>
        (\<exists>new extra.
           summaries = acc @ new \<and> logs w' = logs w @ extra \<and>
           processing_events extra = ps \<and>
           mset ps = mset (map project new) + mset (failed_projects extra) \<and>
           subseq (map project new) ps)) \<and>
   (\<forall>err w'.
      projects_loop e dt pids ps acc w = (Inl err, w') \<longrightarrow>
        err = OSError \<and> (\<exists>q \<in> set ps. \<exists>w0. fst (create_directories e q dt w0) = Inl OSError)) \<and>
   (\<forall>all_projects others project_list ids summaries.
      dt \<in> set [''tissue'', ''diagnostic'', ''both'', ''none''] \<longrightarrow>
      projects_api w = Json (Some all_projects) # others \<longrightarrow>
      select_projects projects all_projects = Inr project_list \<longrightarrow>
      fst (load_patient_ids e patient_ids (snd (get_all_projects w))) = Inr ids \<longrightarrow>
      fst (projects_loop e dt ids project_list []
             (snd (load_patient_ids e patient_ids (snd (get_all_projects w))))) = Inr summaries \<longrightarrow>
      \<not> os_fault e (path_join BASE_DIR ''all_tcga_projects_summary.csv'') \<longrightarrow>
      fs (snd (projects_loop e dt ids project_list []
             (snd (load_patient_ids e patient_ids (snd (get_all_projects w))))))
        (path_join BASE_DIR ''all_tcga_projects_summary.csv'') \<noteq> Some Dir \<longrightarrow>
        fst (download_tcga_slides e dt projects patient_ids w) = Inr () \<and>
        fs (snd (download_tcga_slides e dt projects patient_ids w))
          (path_join BASE_DIR ''all_tcga_projects_summary.csv'') =
            Some (File (Csv_doc (all_projects_rows summaries)))) \<and>
   (\<forall>err w1.
      create_directories e p dt (log_event INFO (Processing p) w) = (Inl err, w1) \<longrightarrow>
        projects_loop e dt pids (p # rest) acc w = (Inl err, w1))"
proof (intro conjI allI impI)
  fix err w1
  assume "create_directories e p dt (log_event INFO (Processing p) w) = (Inl err, w1)"
  then show "projects_loop e dt pids (p # rest) acc w = (Inl err, w1)"
    by simp
next
  fix dirs w1
  assume "create_directories e p dt (log_event INFO (Processing p) w) = (Inr dirs, w1)"
  then show "\<exists>acc' w2.
           projects_loop e dt pids (p # rest) acc w = projects_loop e dt pids rest acc' w2 \<and>
           (acc' = acc \<or> (\<exists>s. acc' = acc @ [s] \<and> project s = p))"
    by (rule projects_loop_step)
next
  fix summaries w'
  assume "projects_loop e dt pids ps acc w = (Inr summaries, w')"
  then show "\<exists>new extra.
           summaries = acc @ new \<and> logs w' = logs w @ extra \<and>
           processing_events extra = ps \<and>
           mset ps = mset (map project new) + mset (failed_projects extra) \<and>
           subseq (map project new) ps"
    by (rule projects_loop_result)
next
  fix err w'
  assume l: "projects_loop e dt pids ps acc w = (Inl err, w')"
  from projects_loop_error[OF l] show "err = OSError" by simp
  from projects_loop_error[OF l]
  show "\<exists>q \<in> set ps. \<exists>w0. fst (create_directories e q dt w0) = Inl OSError" by simp
next
  fix all_projects others project_list ids summaries
  assume h: "dt \<in> set [''tissue'', ''diagnostic'', ''both'', ''none'']"
    "projects_api w = Json (Some all_projects) # others"
    "select_projects projects all_projects = Inr project_list"
    "fst (load_patient_ids e patient_ids (snd (get_all_projects w))) = Inr ids"
    "fst (projects_loop e dt ids project_list []
             (snd (load_patient_ids e patient_ids (snd (get_all_projects w))))) = Inr summaries"
    "\<not> os_fault e (path_join BASE_DIR ''all_tcga_projects_summary.csv'')"
    "fs (snd (projects_loop e dt ids project_list []
             (snd (load_patient_ids e patient_ids (snd (get_all_projects w))))))
        (path_join BASE_DIR ''all_tcga_projects_summary.csv'') \<noteq> Some Dir"
  from download_tcga_slides_report[OF h]
  show "fst (download_tcga_slides e dt projects patient_ids w) = Inr ()"
    "fs (snd (download_tcga_slides e dt projects patient_ids w))
          (path_join BASE_DIR ''all_tcga_projects_summary.csv'') =
            Some (File (Csv_doc (all_projects_rows summaries)))"
    by simp_all
qed


theorem project_failures_are_isolated_witness:
  "fst (download_tcga_slides sample_env ''none'' ''all'' None partial_catalog_world) = Inr () \<and>
   fs (snd (download_tcga_slides sample_env ''none'' ''all'' None partial_catalog_world))
      ''tcga_data/all_tcga_projects_summary.csv'' =
     Some (File (Csv_doc
       [summary_header,
        [Str ''TCGA-LUAD'', Num 1, Num 1, Num 1, Num 0, Fixed2 1, Str ''SVS'']])) \<and>
   failed_projects (logs (snd (download_tcga_slides sample_env ''none'' ''all'' None
      partial_catalog_world))) = [''TCGA-BRCA''] \<and>
   processing_events (logs (snd (download_tcga_slides sample_env ''none'' ''all'' None
      partial_catalog_world))) = [''TCGA-BRCA'', ''TCGA-LUAD'']"
proof -
  have h: "''none'' \<in> set [''tissue'', ''diagnostic'', ''both'', ''none'']"
    "projects_api partial_catalog_world = Json (Some [''TCGA-BRCA'', ''TCGA-LUAD'']) # []"
    "select_projects ''all'' [''TCGA-BRCA'', ''TCGA-LUAD''] = Inr [''TCGA-BRCA'', ''TCGA-LUAD'']"
    "fst (load_patient_ids sample_env None (snd (get_all_projects partial_catalog_world))) = Inr None"
    "\<not> os_fault sample_env (path_join BASE_DIR ''all_tcga_projects_summary.csv'')"
    by (simp_all add: run_defs sample_defs)
  from partial_catalog_report_path have nd: "fs (snd (projects_loop sample_env ''none'' None [''TCGA-BRCA'', ''TCGA-LUAD''] []
          (snd (load_patient_ids sample_env None (snd (get_all_projects partial_catalog_world))))))
      (path_join BASE_DIR ''all_tcga_projects_summary.csv'') \<noteq> Some Dir"
    by simp
  note r = project_failures_are_isolated [where e=sample_env and dt="''none''" and w=partial_catalog_world
      and projects="''all''" and patient_ids=None, THEN conjunct2, THEN conjunct2, THEN conjunct2, THEN conjunct1, rule_format,
      OF h(1) h(2) h(3) h(4) partial_catalog_summaries h(5) nd]
  from r partial_catalog_logs show ?thesis
    by (simp add: all_projects_rows_def summary_row_def path_join_def BASE_DIR_def)
qed

end
